theory Spec2Isabelle
  imports Complex_Main "HOL-Library.Monad_Syntax" "HOL-Library.Char_ord" "HOL-Library.List_Lexorder"
    "HOL-Library.Multiset"
begin

section \<open>Python values and string operations\<close>

text \<open>
  The tools of both crews are Python methods that build a nested \<open>dict\<close> from two
  module-level tables and return \<open>str(result)\<close>. Python strings are modelled as
  \<^typ>\<open>string\<close>, one \<^typ>\<open>char\<close> per code point below 256; integers as \<^typ>\<open>int\<close>.
  A computation that can raise (a missing key, an index out of range, a method applied
  to a value of the wrong type) returns \<^typ>\<open>'a option\<close>, and \<^term>\<open>None\<close> stands
  for the raised exception.
\<close>

datatype pyval =
    PNone
  | PBool bool
  | PInt int
  | PFloatLit string
  | PStr string
  | PList "pyval list"
  | PDict "(string \<times> pyval) list"

text \<open>
  \<open>PFloatLit\<close> carries the \<open>repr\<close> of a float literal of the source. A \<open>dict\<close> is
  an association list in insertion order with distinct keys.
\<close>

subsection \<open>Characters\<close>

definition is_upper_char :: "char \<Rightarrow> bool" where
  "is_upper_char c =
     (let n = (of_char c :: nat)
      in (65 \<le> n \<and> n \<le> 90) \<or> (192 \<le> n \<and> n \<le> 222 \<and> n \<noteq> 215))"


text \<open>Upper and lower case letters differ in the bit of value 32.\<close>

definition lower_char :: "char \<Rightarrow> char" where
  "lower_char c =
     (if is_upper_char c
      then (case c of Char b0 b1 b2 b3 b4 b5 b6 b7 \<Rightarrow> Char b0 b1 b2 b3 b4 True b6 b7)
      else c)"


definition is_space :: "char \<Rightarrow> bool" where
  "is_space c = ((of_char c :: nat) \<in> {9, 10, 11, 12, 13, 28, 29, 30, 31, 32, 133, 160})"

subsection \<open>Methods of \<open>str\<close>\<close>

definition str_lower :: "string \<Rightarrow> string" where
  "str_lower s = map lower_char s"



definition str_strip :: "string \<Rightarrow> string" where
  "str_strip s = rev (dropWhile is_space (rev (dropWhile is_space s)))"

definition str_startswith :: "string \<Rightarrow> string \<Rightarrow> bool" where
  "str_startswith s p = (take (length p) s = p)"

definition str_endswith :: "string \<Rightarrow> string \<Rightarrow> bool" where
  "str_endswith s p = (length p \<le> length s \<and> drop (length s - length p) s = p)"

text \<open>\<open>sub in s\<close> for strings.\<close>

fun str_contains :: "string \<Rightarrow> string \<Rightarrow> bool" where
  "str_contains sub [] = (sub = [])"
| "str_contains sub (c # cs) = (str_startswith (c # cs) sub \<or> str_contains sub cs)"

text \<open>\<open>s.split(sep)\<close> for a separator of one character; \<open>cur\<close> is the piece being read, reversed.\<close>

fun split_from :: "char \<Rightarrow> string \<Rightarrow> string \<Rightarrow> string list" where
  "split_from sep cur [] = [rev cur]"
| "split_from sep cur (c # cs) =
     (if c = sep then rev cur # split_from sep [] cs else split_from sep (c # cur) cs)"

definition str_split :: "string \<Rightarrow> char \<Rightarrow> string list" where
  "str_split s sep = split_from sep [] s"

fun str_join :: "string \<Rightarrow> string list \<Rightarrow> string" where
  "str_join sep [] = []"
| "str_join sep [x] = x"
| "str_join sep (x # y # ys) = x @ sep @ str_join sep (y # ys)"

text \<open>\<open>s.replace(old, new)\<close> for a non-empty \<open>old\<close>, scanning from the left; \<open>n\<close> bounds the scan.\<close>

fun replace_from :: "nat \<Rightarrow> string \<Rightarrow> string \<Rightarrow> string \<Rightarrow> string" where
  "replace_from 0 old new s = s"
| "replace_from (Suc n) old new [] = []"
| "replace_from (Suc n) old new (c # cs) =
     (if str_startswith (c # cs) old
      then new @ replace_from n old new (drop (length old) (c # cs))
      else c # replace_from n old new cs)"

definition str_replace :: "string \<Rightarrow> string \<Rightarrow> string \<Rightarrow> string" where
  "str_replace s old new =
     (if old = [] then new @ concat (map (\<lambda>c. c # new) s)
      else replace_from (length s) old new s)"


text \<open>Slices \<open>xs[:n]\<close> and \<open>xs[a:b]\<close> with Python's reading of negative bounds.\<close>

definition slice_bound :: "nat \<Rightarrow> int \<Rightarrow> nat" where
  "slice_bound len i = (if i < 0 then nat (int len + i) else min len (nat i))"

definition py_slice :: "'a list \<Rightarrow> int \<Rightarrow> int \<Rightarrow> 'a list" where
  "py_slice xs a b =
     (let lo = slice_bound (length xs) a; hi = slice_bound (length xs) b
      in drop lo (take hi xs))"

definition slice_to :: "'a list \<Rightarrow> int \<Rightarrow> 'a list" where
  "slice_to xs b = take (slice_bound (length xs) b) xs"

definition slice_from :: "'a list \<Rightarrow> int \<Rightarrow> 'a list" where
  "slice_from xs a = drop (slice_bound (length xs) a) xs"

text \<open>\<open>xs[0]\<close> raises IndexError on an empty sequence.\<close>

definition first_item :: "'a list \<Rightarrow> 'a option" where
  "first_item xs = (case xs of [] \<Rightarrow> None | x # _ \<Rightarrow> Some x)"


subsection \<open>\<open>str\<close> of integers and \<open>repr\<close> of values\<close>

function str_of_nat :: "nat \<Rightarrow> string" where
  "str_of_nat n =
     (if n < 10 then [''0123456789'' ! n]
      else str_of_nat (n div 10) @ [''0123456789'' ! (n mod 10)])"
  by pat_completeness auto
termination
  by (relation "measure id") auto

declare str_of_nat.simps [simp del]

definition str_of_int :: "int \<Rightarrow> string" where
  "str_of_int i = (if i < 0 then CHR ''-'' # str_of_nat (nat (- i)) else str_of_nat (nat i))"

definition hex2 :: "char \<Rightarrow> string" where
  "hex2 c = (let n = (of_char c :: nat)
             in [''0123456789abcdef'' ! (n div 16), ''0123456789abcdef'' ! (n mod 16)])"

definition is_printable :: "char \<Rightarrow> bool" where
  "is_printable c =
     (let n = (of_char c :: nat) in 32 \<le> n \<and> n \<noteq> 127 \<and> \<not> (128 \<le> n \<and> n \<le> 160) \<and> n \<noteq> 173)"

definition repr_char :: "char \<Rightarrow> char \<Rightarrow> string" where
  "repr_char quote c =
     (if c = quote \<or> c = CHR 0x5C then [CHR 0x5C, c]
      else if c = CHR 0x09 then [CHR 0x5C, CHR ''t'']
      else if c = CHR 0x0A then [CHR 0x5C, CHR ''n'']
      else if c = CHR 0x0D then [CHR 0x5C, CHR ''r'']
      else if is_printable c then [c]
      else [CHR 0x5C, CHR ''x''] @ hex2 c)"

definition repr_str :: "string \<Rightarrow> string" where
  "repr_str s =
     (let quote = (if CHR 0x27 \<in> set s \<and> CHR 0x22 \<notin> set s then CHR 0x22 else CHR 0x27)
      in quote # concat (map (repr_char quote) s) @ [quote])"

fun py_repr :: "pyval \<Rightarrow> string" where
  "py_repr PNone = ''None''"
| "py_repr (PBool b) = (if b then ''True'' else ''False'')"
| "py_repr (PInt i) = str_of_int i"
| "py_repr (PFloatLit f) = f"
| "py_repr (PStr s) = repr_str s"
| "py_repr (PList xs) = ''['' @ str_join '', '' (map py_repr xs) @ '']''"
| "py_repr (PDict kvs) =
     ''{'' @ str_join '', '' (map (\<lambda>(k, v). repr_str k @ '': '' @ py_repr v) kvs) @ ''}''"

subsection \<open>Dictionaries\<close>

definition dict_keys :: "(string \<times> pyval) list \<Rightarrow> string list" where
  "dict_keys kvs = map fst kvs"

text \<open>\<open>d[k]\<close> raises KeyError when the key is missing, TypeError when \<open>d\<close> is no dict.\<close>

definition getitem :: "pyval \<Rightarrow> string \<Rightarrow> pyval option" where
  "getitem d k = (case d of PDict kvs \<Rightarrow> map_of kvs k | _ \<Rightarrow> None)"

text \<open>\<open>d.get(k, default)\<close>.\<close>

definition dict_get :: "pyval \<Rightarrow> string \<Rightarrow> pyval \<Rightarrow> pyval option" where
  "dict_get d k dflt =
     (case d of PDict kvs \<Rightarrow> (case map_of kvs k of None \<Rightarrow> Some dflt | Some v \<Rightarrow> Some v)
      | _ \<Rightarrow> None)"

text \<open>\<open>d[k] = v\<close>: an existing key keeps its place, a new key goes last.\<close>

fun dict_set :: "(string \<times> pyval) list \<Rightarrow> string \<Rightarrow> pyval \<Rightarrow> (string \<times> pyval) list" where
  "dict_set [] k v = [(k, v)]"
| "dict_set ((k', v') # kvs) k v = (if k' = k then (k, v) # kvs else (k', v') # dict_set kvs k v)"

text \<open>A value used where the code calls a string or a list method on it.\<close>

definition as_str :: "pyval \<Rightarrow> string option" where
  "as_str v = (case v of PStr s \<Rightarrow> Some s | _ \<Rightarrow> None)"

definition as_list :: "pyval \<Rightarrow> pyval list option" where
  "as_list v = (case v of PList xs \<Rightarrow> Some xs | _ \<Rightarrow> None)"

definition getstr :: "pyval \<Rightarrow> string \<Rightarrow> string option" where
  "getstr d k = getitem d k \<bind> as_str"

definition getlist :: "pyval \<Rightarrow> string \<Rightarrow> pyval list option" where
  "getlist d k = getitem d k \<bind> as_list"

text \<open>Running a fallible body over a list, as a \<open>for\<close> loop or a comprehension does.\<close>

fun map_opt :: "('a \<Rightarrow> 'b option) \<Rightarrow> 'a list \<Rightarrow> 'b list option" where
  "map_opt f [] = Some []"
| "map_opt f (x # xs) = do { y \<leftarrow> f x; ys \<leftarrow> map_opt f xs; Some (y # ys) }"

fun filter_opt :: "('a \<Rightarrow> bool option) \<Rightarrow> 'a list \<Rightarrow> 'a list option" where
  "filter_opt p [] = Some []"
| "filter_opt p (x # xs) =
     do { b \<leftarrow> p x; ys \<leftarrow> filter_opt p xs; Some (if b then x # ys else ys) }"

fun fold_opt :: "('a \<Rightarrow> 's \<Rightarrow> 's option) \<Rightarrow> 'a list \<Rightarrow> 's \<Rightarrow> 's option" where
  "fold_opt f [] s = Some s"
| "fold_opt f (x # xs) s = do { s' \<leftarrow> f x s; fold_opt f xs s' }"

text \<open>Truth value of an \<open>Optional[str]\<close> argument: \<open>None\<close> and the empty string are false.\<close>

definition truthy :: "string option \<Rightarrow> bool" where
  "truthy a = (case a of None \<Rightarrow> False | Some s \<Rightarrow> s \<noteq> [])"

definition opt_val :: "string option \<Rightarrow> pyval" where
  "opt_val a = (case a of None \<Rightarrow> PNone | Some s \<Rightarrow> PStr s)"

abbreviation NL :: string where
  "NL \<equiv> [CHR 0x0A]"

abbreviation SQ :: string where
  "SQ \<equiv> [CHR 0x27]"

section \<open>The static knowledge tables\<close>

subsection \<open>\<open>CREATIO_SCHEMA_KNOWLEDGE\<close> (schema_tools.py)\<close>

definition Contact_info :: pyval where
  "Contact_info =
     PDict [
       (''description'', PStr ''Core entity storing person/individual information''),
       (''table_name'', PStr ''Contact''),
       (''key_columns'', PList [
         PDict [(''name'', PStr ''Id''), (''type'', PStr ''uniqueidentifier''), (''description'', PStr ''Primary key'')],
         PDict [(''name'', PStr ''Name''), (''type'', PStr ''nvarchar(250)''), (''description'', PStr ''Full name of the contact'')],
         PDict [(''name'', PStr ''AccountId''), (''type'', PStr ''uniqueidentifier''), (''description'', PStr ''FK to Account - associated company'')],
         PDict [(''name'', PStr ''Email''), (''type'', PStr ''nvarchar(250)''), (''description'', PStr ''Primary email address'')],
         PDict [(''name'', PStr ''Phone''), (''type'', PStr ''nvarchar(250)''), (''description'', PStr ''Primary phone number'')],
         PDict [(''name'', PStr ''MobilePhone''), (''type'', PStr ''nvarchar(250)''), (''description'', PStr ''Mobile phone number'')],
         PDict [(''name'', PStr ''JobTitle''), (''type'', PStr ''nvarchar(250)''), (''description'', PStr ''Contact's job title'')],
         PDict [(''name'', PStr ''DepartmentId''), (''type'', PStr ''uniqueidentifier''), (''description'', PStr ''FK to Department lookup'')],
         PDict [(''name'', PStr ''OwnerId''), (''type'', PStr ''uniqueidentifier''), (''description'', PStr ''FK to Contact - record owner'')],
         PDict [(''name'', PStr ''TypeId''), (''type'', PStr ''uniqueidentifier''), (''description'', PStr ''FK to ContactType lookup'')],
         PDict [(''name'', PStr ''CreatedOn''), (''type'', PStr ''datetime''), (''description'', PStr ''Record creation timestamp'')],
         PDict [(''name'', PStr ''ModifiedOn''), (''type'', PStr ''datetime''), (''description'', PStr ''Last modification timestamp'')]]),
       (''relationships'', PList [
         PDict [(''entity'', PStr ''Account''), (''type'', PStr ''many-to-one''), (''column'', PStr ''AccountId'')],
         PDict [(''entity'', PStr ''Activity''), (''type'', PStr ''one-to-many''), (''detail'', PBool True)],
         PDict [(''entity'', PStr ''Opportunity''), (''type'', PStr ''one-to-many''), (''via'', PStr ''OpportunityContact'')],
         PDict [(''entity'', PStr ''Lead''), (''type'', PStr ''one-to-one''), (''column'', PStr ''QualifiedContactId'')]])]"

definition Account_info :: pyval where
  "Account_info =
     PDict [
       (''description'', PStr ''Core entity storing company/organization information''),
       (''table_name'', PStr ''Account''),
       (''key_columns'', PList [
         PDict [(''name'', PStr ''Id''), (''type'', PStr ''uniqueidentifier''), (''description'', PStr ''Primary key'')],
         PDict [(''name'', PStr ''Name''), (''type'', PStr ''nvarchar(250)''), (''description'', PStr ''Company name'')],
         PDict [(''name'', PStr ''TypeId''), (''type'', PStr ''uniqueidentifier''), (''description'', PStr ''FK to AccountType lookup'')],
         PDict [(''name'', PStr ''IndustryId''), (''type'', PStr ''uniqueidentifier''), (''description'', PStr ''FK to AccountIndustry lookup'')],
         PDict [(''name'', PStr ''OwnerId''), (''type'', PStr ''uniqueidentifier''), (''description'', PStr ''FK to Contact - account owner'')],
         PDict [
           (''name'', PStr ''PrimaryContactId''),
           (''type'', PStr ''uniqueidentifier''),
           (''description'', PStr ''FK to Contact - primary contact'')],
         PDict [(''name'', PStr ''Phone''), (''type'', PStr ''nvarchar(250)''), (''description'', PStr ''Main phone number'')],
         PDict [(''name'', PStr ''Web''), (''type'', PStr ''nvarchar(250)''), (''description'', PStr ''Website URL'')],
         PDict [(''name'', PStr ''AnnualRevenue''), (''type'', PStr ''decimal''), (''description'', PStr ''Annual revenue amount'')],
         PDict [(''name'', PStr ''EmployeesNumber''), (''type'', PStr ''int''), (''description'', PStr ''Number of employees'')],
         PDict [(''name'', PStr ''CreatedOn''), (''type'', PStr ''datetime''), (''description'', PStr ''Record creation timestamp'')],
         PDict [(''name'', PStr ''ModifiedOn''), (''type'', PStr ''datetime''), (''description'', PStr ''Last modification timestamp'')]]),
       (''relationships'', PList [
         PDict [(''entity'', PStr ''Contact''), (''type'', PStr ''one-to-many''), (''column'', PStr ''AccountId'')],
         PDict [(''entity'', PStr ''Opportunity''), (''type'', PStr ''one-to-many''), (''column'', PStr ''AccountId'')],
         PDict [(''entity'', PStr ''Activity''), (''type'', PStr ''one-to-many''), (''detail'', PBool True)],
         PDict [(''entity'', PStr ''Case''), (''type'', PStr ''one-to-many''), (''column'', PStr ''AccountId'')]])]"

definition Opportunity_info :: pyval where
  "Opportunity_info =
     PDict [
       (''description'', PStr ''Sales opportunity/deal tracking entity''),
       (''table_name'', PStr ''Opportunity''),
       (''key_columns'', PList [
         PDict [(''name'', PStr ''Id''), (''type'', PStr ''uniqueidentifier''), (''description'', PStr ''Primary key'')],
         PDict [(''name'', PStr ''Title''), (''type'', PStr ''nvarchar(250)''), (''description'', PStr ''Opportunity name/title'')],
         PDict [(''name'', PStr ''AccountId''), (''type'', PStr ''uniqueidentifier''), (''description'', PStr ''FK to Account'')],
         PDict [(''name'', PStr ''StageId''), (''type'', PStr ''uniqueidentifier''), (''description'', PStr ''FK to OpportunityStage lookup'')],
         PDict [(''name'', PStr ''Amount''), (''type'', PStr ''decimal''), (''description'', PStr ''Deal value/amount'')],
         PDict [(''name'', PStr ''Probability''), (''type'', PStr ''int''), (''description'', PStr ''Win probability percentage'')],
         PDict [(''name'', PStr ''OwnerId''), (''type'', PStr ''uniqueidentifier''), (''description'', PStr ''FK to Contact - opportunity owner'')],
         PDict [(''name'', PStr ''CloseDate''), (''type'', PStr ''datetime''), (''description'', PStr ''Expected close date'')],
         PDict [(''name'', PStr ''DueDate''), (''type'', PStr ''datetime''), (''description'', PStr ''Due date'')],
         PDict [(''name'', PStr ''LeadTypeId''), (''type'', PStr ''uniqueidentifier''), (''description'', PStr ''FK to LeadType - source type'')],
         PDict [(''name'', PStr ''IsPrimary''), (''type'', PStr ''bit''), (''description'', PStr ''Primary opportunity flag'')],
         PDict [(''name'', PStr ''CreatedOn''), (''type'', PStr ''datetime''), (''description'', PStr ''Record creation timestamp'')],
         PDict [(''name'', PStr ''ModifiedOn''), (''type'', PStr ''datetime''), (''description'', PStr ''Last modification timestamp'')]]),
       (''relationships'', PList [
         PDict [(''entity'', PStr ''Account''), (''type'', PStr ''many-to-one''), (''column'', PStr ''AccountId'')],
         PDict [(''entity'', PStr ''Contact''), (''type'', PStr ''many-to-many''), (''via'', PStr ''OpportunityContact'')],
         PDict [(''entity'', PStr ''OpportunityStage''), (''type'', PStr ''many-to-one''), (''column'', PStr ''StageId'')],
         PDict [(''entity'', PStr ''Product''), (''type'', PStr ''many-to-many''), (''via'', PStr ''OpportunityProductInterest'')],
         PDict [(''entity'', PStr ''Activity''), (''type'', PStr ''one-to-many''), (''detail'', PBool True)]])]"

definition Lead_info :: pyval where
  "Lead_info =
     PDict [
       (''description'', PStr ''Sales lead entity - potential customers before qualification''),
       (''table_name'', PStr ''Lead''),
       (''key_columns'', PList [
         PDict [(''name'', PStr ''Id''), (''type'', PStr ''uniqueidentifier''), (''description'', PStr ''Primary key'')],
         PDict [(''name'', PStr ''LeadName''), (''type'', PStr ''nvarchar(250)''), (''description'', PStr ''Lead name/title'')],
         PDict [(''name'', PStr ''Contact''), (''type'', PStr ''nvarchar(250)''), (''description'', PStr ''Contact person name'')],
         PDict [(''name'', PStr ''Account''), (''type'', PStr ''nvarchar(250)''), (''description'', PStr ''Company name (text)'')],
         PDict [(''name'', PStr ''Email''), (''type'', PStr ''nvarchar(250)''), (''description'', PStr ''Email address'')],
         PDict [(''name'', PStr ''MobilePhone''), (''type'', PStr ''nvarchar(250)''), (''description'', PStr ''Mobile phone'')],
         PDict [(''name'', PStr ''QualifyStatusId''), (''type'', PStr ''uniqueidentifier''), (''description'', PStr ''FK to QualifyStatus lookup'')],
         PDict [(''name'', PStr ''LeadSourceId''), (''type'', PStr ''uniqueidentifier''), (''description'', PStr ''FK to LeadSource lookup'')],
         PDict [(''name'', PStr ''LeadTypeId''), (''type'', PStr ''uniqueidentifier''), (''description'', PStr ''FK to LeadType lookup'')],
         PDict [(''name'', PStr ''OwnerId''), (''type'', PStr ''uniqueidentifier''), (''description'', PStr ''FK to Contact - lead owner'')],
         PDict [
           (''name'', PStr ''QualifiedContactId''),
           (''type'', PStr ''uniqueidentifier''),
           (''description'', PStr ''FK to Contact - converted contact'')],
         PDict [
           (''name'', PStr ''QualifiedAccountId''),
           (''type'', PStr ''uniqueidentifier''),
           (''description'', PStr ''FK to Account - converted account'')],
         PDict [(''name'', PStr ''Budget''), (''type'', PStr ''decimal''), (''description'', PStr ''Estimated budget'')],
         PDict [(''name'', PStr ''CreatedOn''), (''type'', PStr ''datetime''), (''description'', PStr ''Record creation timestamp'')]]),
       (''relationships'', PList [
         PDict [(''entity'', PStr ''Contact''), (''type'', PStr ''one-to-one''), (''column'', PStr ''QualifiedContactId'')],
         PDict [(''entity'', PStr ''Account''), (''type'', PStr ''one-to-one''), (''column'', PStr ''QualifiedAccountId'')],
         PDict [(''entity'', PStr ''Activity''), (''type'', PStr ''one-to-many''), (''detail'', PBool True)]])]"

definition Activity_info :: pyval where
  "Activity_info =
     PDict [
       (''description'', PStr ''Activities including calls, emails, tasks, meetings''),
       (''table_name'', PStr ''Activity''),
       (''key_columns'', PList [
         PDict [(''name'', PStr ''Id''), (''type'', PStr ''uniqueidentifier''), (''description'', PStr ''Primary key'')],
         PDict [(''name'', PStr ''Title''), (''type'', PStr ''nvarchar(500)''), (''description'', PStr ''Activity subject/title'')],
         PDict [(''name'', PStr ''TypeId''), (''type'', PStr ''uniqueidentifier''), (''description'', PStr ''FK to ActivityType lookup'')],
         PDict [(''name'', PStr ''StatusId''), (''type'', PStr ''uniqueidentifier''), (''description'', PStr ''FK to ActivityStatus lookup'')],
         PDict [(''name'', PStr ''PriorityId''), (''type'', PStr ''uniqueidentifier''), (''description'', PStr ''FK to ActivityPriority lookup'')],
         PDict [(''name'', PStr ''OwnerId''), (''type'', PStr ''uniqueidentifier''), (''description'', PStr ''FK to Contact - activity owner'')],
         PDict [(''name'', PStr ''ContactId''), (''type'', PStr ''uniqueidentifier''), (''description'', PStr ''FK to Contact - related contact'')],
         PDict [(''name'', PStr ''AccountId''), (''type'', PStr ''uniqueidentifier''), (''description'', PStr ''FK to Account - related account'')],
         PDict [(''name'', PStr ''OpportunityId''), (''type'', PStr ''uniqueidentifier''), (''description'', PStr ''FK to Opportunity'')],
         PDict [(''name'', PStr ''StartDate''), (''type'', PStr ''datetime''), (''description'', PStr ''Activity start date/time'')],
         PDict [(''name'', PStr ''DueDate''), (''type'', PStr ''datetime''), (''description'', PStr ''Activity due date/time'')],
         PDict [(''name'', PStr ''ResultId''), (''type'', PStr ''uniqueidentifier''), (''description'', PStr ''FK to ActivityResult lookup'')],
         PDict [(''name'', PStr ''CreatedOn''), (''type'', PStr ''datetime''), (''description'', PStr ''Record creation timestamp'')]]),
       (''relationships'', PList [
         PDict [(''entity'', PStr ''Contact''), (''type'', PStr ''many-to-one''), (''column'', PStr ''ContactId'')],
         PDict [(''entity'', PStr ''Account''), (''type'', PStr ''many-to-one''), (''column'', PStr ''AccountId'')],
         PDict [(''entity'', PStr ''Opportunity''), (''type'', PStr ''many-to-one''), (''column'', PStr ''OpportunityId'')],
         PDict [(''entity'', PStr ''ActivityParticipant''), (''type'', PStr ''one-to-many''), (''detail'', PBool True)]])]"

definition Case_info :: pyval where
  "Case_info =
     PDict [
       (''description'', PStr ''Customer service case/ticket entity''),
       (''table_name'', PStr ''Case''),
       (''key_columns'', PList [
         PDict [(''name'', PStr ''Id''), (''type'', PStr ''uniqueidentifier''), (''description'', PStr ''Primary key'')],
         PDict [(''name'', PStr ''Number''), (''type'', PStr ''nvarchar(250)''), (''description'', PStr ''Case number'')],
         PDict [(''name'', PStr ''Subject''), (''type'', PStr ''nvarchar(500)''), (''description'', PStr ''Case subject'')],
         PDict [(''name'', PStr ''StatusId''), (''type'', PStr ''uniqueidentifier''), (''description'', PStr ''FK to CaseStatus lookup'')],
         PDict [(''name'', PStr ''PriorityId''), (''type'', PStr ''uniqueidentifier''), (''description'', PStr ''FK to CasePriority lookup'')],
         PDict [(''name'', PStr ''CategoryId''), (''type'', PStr ''uniqueidentifier''), (''description'', PStr ''FK to CaseCategory lookup'')],
         PDict [(''name'', PStr ''ContactId''), (''type'', PStr ''uniqueidentifier''), (''description'', PStr ''FK to Contact - reporting contact'')],
         PDict [(''name'', PStr ''AccountId''), (''type'', PStr ''uniqueidentifier''), (''description'', PStr ''FK to Account - associated account'')],
         PDict [(''name'', PStr ''OwnerId''), (''type'', PStr ''uniqueidentifier''), (''description'', PStr ''FK to Contact - case owner'')],
         PDict [(''name'', PStr ''GroupId''), (''type'', PStr ''uniqueidentifier''), (''description'', PStr ''FK to SysAdminUnit - assigned group'')],
         PDict [(''name'', PStr ''RegisteredOn''), (''type'', PStr ''datetime''), (''description'', PStr ''Registration timestamp'')],
         PDict [(''name'', PStr ''SolutionDate''), (''type'', PStr ''datetime''), (''description'', PStr ''Solution/resolution date'')],
         PDict [
           (''name'', PStr ''SatisfactionLevelId''),
           (''type'', PStr ''uniqueidentifier''),
           (''description'', PStr ''FK to SatisfactionLevel lookup'')],
         PDict [(''name'', PStr ''CreatedOn''), (''type'', PStr ''datetime''), (''description'', PStr ''Record creation timestamp'')]]),
       (''relationships'', PList [
         PDict [(''entity'', PStr ''Contact''), (''type'', PStr ''many-to-one''), (''column'', PStr ''ContactId'')],
         PDict [(''entity'', PStr ''Account''), (''type'', PStr ''many-to-one''), (''column'', PStr ''AccountId'')],
         PDict [(''entity'', PStr ''Activity''), (''type'', PStr ''one-to-many''), (''detail'', PBool True)]])]"

definition Product_info :: pyval where
  "Product_info =
     PDict [
       (''description'', PStr ''Product catalog entity''),
       (''table_name'', PStr ''Product''),
       (''key_columns'', PList [
         PDict [(''name'', PStr ''Id''), (''type'', PStr ''uniqueidentifier''), (''description'', PStr ''Primary key'')],
         PDict [(''name'', PStr ''Name''), (''type'', PStr ''nvarchar(250)''), (''description'', PStr ''Product name'')],
         PDict [(''name'', PStr ''Code''), (''type'', PStr ''nvarchar(50)''), (''description'', PStr ''Product code/SKU'')],
         PDict [(''name'', PStr ''TypeId''), (''type'', PStr ''uniqueidentifier''), (''description'', PStr ''FK to ProductType lookup'')],
         PDict [(''name'', PStr ''CategoryId''), (''type'', PStr ''uniqueidentifier''), (''description'', PStr ''FK to ProductCategory lookup'')],
         PDict [(''name'', PStr ''Price''), (''type'', PStr ''decimal''), (''description'', PStr ''Unit price'')],
         PDict [(''name'', PStr ''IsActive''), (''type'', PStr ''bit''), (''description'', PStr ''Active flag'')],
         PDict [(''name'', PStr ''Description''), (''type'', PStr ''nvarchar(max)''), (''description'', PStr ''Product description'')],
         PDict [(''name'', PStr ''CreatedOn''), (''type'', PStr ''datetime''), (''description'', PStr ''Record creation timestamp'')]]),
       (''relationships'', PList [
         PDict [(''entity'', PStr ''Opportunity''), (''type'', PStr ''many-to-many''), (''via'', PStr ''OpportunityProductInterest'')],
         PDict [(''entity'', PStr ''Order''), (''type'', PStr ''one-to-many''), (''via'', PStr ''OrderProduct'')]])]"

definition Order_info :: pyval where
  "Order_info =
     PDict [
       (''description'', PStr ''Sales order entity''),
       (''table_name'', PStr ''Order''),
       (''key_columns'', PList [
         PDict [(''name'', PStr ''Id''), (''type'', PStr ''uniqueidentifier''), (''description'', PStr ''Primary key'')],
         PDict [(''name'', PStr ''Number''), (''type'', PStr ''nvarchar(250)''), (''description'', PStr ''Order number'')],
         PDict [(''name'', PStr ''AccountId''), (''type'', PStr ''uniqueidentifier''), (''description'', PStr ''FK to Account - customer'')],
         PDict [(''name'', PStr ''ContactId''), (''type'', PStr ''uniqueidentifier''), (''description'', PStr ''FK to Contact - order contact'')],
         PDict [
           (''name'', PStr ''OpportunityId''),
           (''type'', PStr ''uniqueidentifier''),
           (''description'', PStr ''FK to Opportunity - source opportunity'')],
         PDict [(''name'', PStr ''StatusId''), (''type'', PStr ''uniqueidentifier''), (''description'', PStr ''FK to OrderStatus lookup'')],
         PDict [(''name'', PStr ''Amount''), (''type'', PStr ''decimal''), (''description'', PStr ''Order total amount'')],
         PDict [(''name'', PStr ''OwnerId''), (''type'', PStr ''uniqueidentifier''), (''description'', PStr ''FK to Contact - order owner'')],
         PDict [(''name'', PStr ''Date''), (''type'', PStr ''datetime''), (''description'', PStr ''Order date'')],
         PDict [(''name'', PStr ''CreatedOn''), (''type'', PStr ''datetime''), (''description'', PStr ''Record creation timestamp'')]]),
       (''relationships'', PList [
         PDict [(''entity'', PStr ''Account''), (''type'', PStr ''many-to-one''), (''column'', PStr ''AccountId'')],
         PDict [(''entity'', PStr ''Contact''), (''type'', PStr ''many-to-one''), (''column'', PStr ''ContactId'')],
         PDict [(''entity'', PStr ''Opportunity''), (''type'', PStr ''many-to-one''), (''column'', PStr ''OpportunityId'')],
         PDict [(''entity'', PStr ''OrderProduct''), (''type'', PStr ''one-to-many''), (''detail'', PBool True)]])]"

definition SysAdminUnit_info :: pyval where
  "SysAdminUnit_info =
     PDict [
       (''description'', PStr ''System users and groups (security model)''),
       (''table_name'', PStr ''SysAdminUnit''),
       (''key_columns'', PList [
         PDict [(''name'', PStr ''Id''), (''type'', PStr ''uniqueidentifier''), (''description'', PStr ''Primary key'')],
         PDict [(''name'', PStr ''Name''), (''type'', PStr ''nvarchar(250)''), (''description'', PStr ''User/group name'')],
         PDict [(''name'', PStr ''ContactId''), (''type'', PStr ''uniqueidentifier''), (''description'', PStr ''FK to Contact - linked contact'')],
         PDict [
           (''name'', PStr ''SysAdminUnitTypeId''),
           (''type'', PStr ''uniqueidentifier''),
           (''description'', PStr ''FK - user type (user, role, org)'')],
         PDict [(''name'', PStr ''ParentRoleId''), (''type'', PStr ''uniqueidentifier''), (''description'', PStr ''FK to parent role/group'')],
         PDict [(''name'', PStr ''Active''), (''type'', PStr ''bit''), (''description'', PStr ''Active flag'')],
         PDict [(''name'', PStr ''LoggedIn''), (''type'', PStr ''bit''), (''description'', PStr ''Currently logged in flag'')]]),
       (''relationships'', PList [
         PDict [(''entity'', PStr ''Contact''), (''type'', PStr ''one-to-one''), (''column'', PStr ''ContactId'')],
         PDict [(''entity'', PStr ''SysAdminUnit''), (''type'', PStr ''self-referencing''), (''column'', PStr ''ParentRoleId'')]])]"

definition CREATIO_SCHEMA_KNOWLEDGE :: "(string \<times> pyval) list" where
  "CREATIO_SCHEMA_KNOWLEDGE =
     [(''Contact'', Contact_info),
      (''Account'', Account_info),
      (''Opportunity'', Opportunity_info),
      (''Lead'', Lead_info),
      (''Activity'', Activity_info),
      (''Case'', Case_info),
      (''Product'', Product_info),
      (''Order'', Order_info),
      (''SysAdminUnit'', SysAdminUnit_info)]"

subsection \<open>\<open>CRM_KPI_LIBRARY\<close> (metrics_tools.py)\<close>

definition sales_kpis :: pyval where
  "sales_kpis =
     PDict [
       (''pipeline_value'', PDict [
         (''name'', PStr ''Pipeline Value''),
         (''description'', PStr ''Total value of open opportunities in the sales pipeline''),
         (''formula'', PStr ''SUM(Opportunity.Amount) WHERE Opportunity.Stage.IsFinal = 0''),
         (''unit'', PStr ''currency''),
         (''frequency'', PStr ''daily''),
         (''entities'', PList [PStr ''Opportunity'', PStr ''OpportunityStage''])]),
       (''win_rate'', PDict [
         (''name'', PStr ''Win Rate''),
         (''description'', PStr ''Percentage of opportunities closed as won''),
         (''formula'', PStr ''(COUNT(Won Opportunities) / COUNT(All Closed Opportunities)) * 100''),
         (''unit'', PStr ''percentage''),
         (''frequency'', PStr ''monthly''),
         (''entities'', PList [PStr ''Opportunity'', PStr ''OpportunityStage''])]),
       (''average_deal_size'', PDict [
         (''name'', PStr ''Average Deal Size''),
         (''description'', PStr ''Average value of closed-won opportunities''),
         (''formula'', PStr (''AVG(Opportunity.Amount) WHERE Stage.Name = 'Closed won'' @ SQ)),
         (''unit'', PStr ''currency''),
         (''frequency'', PStr ''monthly''),
         (''entities'', PList [PStr ''Opportunity''])]),
       (''sales_cycle_length'', PDict [
         (''name'', PStr ''Sales Cycle Length''),
         (''description'', PStr ''Average days from opportunity creation to close''),
         (''formula'', PStr ''AVG(DATEDIFF(day, Opportunity.CreatedOn, Opportunity.CloseDate))''),
         (''unit'', PStr ''days''),
         (''frequency'', PStr ''monthly''),
         (''entities'', PList [PStr ''Opportunity''])]),
       (''lead_conversion_rate'', PDict [
         (''name'', PStr ''Lead Conversion Rate''),
         (''description'', PStr ''Percentage of leads converted to opportunities''),
         (''formula'', PStr ''(COUNT(Converted Leads) / COUNT(All Leads)) * 100''),
         (''unit'', PStr ''percentage''),
         (''frequency'', PStr ''monthly''),
         (''entities'', PList [PStr ''Lead''])]),
       (''revenue_by_rep'', PDict [
         (''name'', PStr ''Revenue by Sales Rep''),
         (''description'', PStr ''Total closed revenue per sales representative''),
         (''formula'', PStr (''SUM(Opportunity.Amount) GROUP BY OwnerId WHERE Stage = 'Closed won'' @ SQ)),
         (''unit'', PStr ''currency''),
         (''frequency'', PStr ''monthly''),
         (''entities'', PList [PStr ''Opportunity'', PStr ''Contact''])]),
       (''quota_attainment'', PDict [
         (''name'', PStr ''Quota Attainment''),
         (''description'', PStr ''Percentage of sales quota achieved''),
         (''formula'', PStr ''(Actual Revenue / Target Quota) * 100''),
         (''unit'', PStr ''percentage''),
         (''frequency'', PStr ''monthly''),
         (''entities'', PList [PStr ''Opportunity'', PStr ''SalesTarget''])]),
       (''opportunity_velocity'', PDict [
         (''name'', PStr ''Opportunity Velocity''),
         (''description'', PStr ''Rate at which opportunities move through pipeline''),
         (''formula'', PStr ''(# Opportunities * Win Rate * Avg Deal) / Sales Cycle''),
         (''unit'', PStr ''currency/day''),
         (''frequency'', PStr ''monthly''),
         (''entities'', PList [PStr ''Opportunity''])])]"

definition marketing_kpis :: pyval where
  "marketing_kpis =
     PDict [
       (''lead_volume'', PDict [
         (''name'', PStr ''Lead Volume''),
         (''description'', PStr ''Number of new leads created in period''),
         (''formula'', PStr ''COUNT(Lead) WHERE CreatedOn IN period''),
         (''unit'', PStr ''count''),
         (''frequency'', PStr ''weekly''),
         (''entities'', PList [PStr ''Lead''])]),
       (''lead_source_effectiveness'', PDict [
         (''name'', PStr ''Lead Source Effectiveness''),
         (''description'', PStr ''Leads and conversions by source''),
         (''formula'', PStr ''COUNT(Lead) GROUP BY LeadSourceId''),
         (''unit'', PStr ''count''),
         (''frequency'', PStr ''monthly''),
         (''entities'', PList [PStr ''Lead'', PStr ''LeadSource''])]),
       (''marketing_qualified_leads'', PDict [
         (''name'', PStr ''Marketing Qualified Leads (MQL)''),
         (''description'', PStr ''Leads meeting marketing qualification criteria''),
         (''formula'', PStr (''COUNT(Lead) WHERE QualifyStatus = 'Marketing Qualified'' @ SQ)),
         (''unit'', PStr ''count''),
         (''frequency'', PStr ''weekly''),
         (''entities'', PList [PStr ''Lead'', PStr ''QualifyStatus''])]),
       (''cost_per_lead'', PDict [
         (''name'', PStr ''Cost Per Lead''),
         (''description'', PStr ''Marketing spend divided by leads generated''),
         (''formula'', PStr ''Marketing Spend / COUNT(Leads)''),
         (''unit'', PStr ''currency''),
         (''frequency'', PStr ''monthly''),
         (''entities'', PList [PStr ''Lead'', PStr ''Campaign''])]),
       (''campaign_roi'', PDict [
         (''name'', PStr ''Campaign ROI''),
         (''description'', PStr ''Return on investment for marketing campaigns''),
         (''formula'', PStr ''((Revenue - Cost) / Cost) * 100''),
         (''unit'', PStr ''percentage''),
         (''frequency'', PStr ''per_campaign''),
         (''entities'', PList [PStr ''Campaign'', PStr ''Opportunity''])])]"

definition customer_service_kpis :: pyval where
  "customer_service_kpis =
     PDict [
       (''case_volume'', PDict [
         (''name'', PStr ''Case Volume''),
         (''description'', PStr ''Total number of support cases''),
         (''formula'', PStr ''COUNT(Case)''),
         (''unit'', PStr ''count''),
         (''frequency'', PStr ''daily''),
         (''entities'', PList [PStr ''Case''])]),
       (''average_resolution_time'', PDict [
         (''name'', PStr ''Average Resolution Time''),
         (''description'', PStr ''Average time to resolve cases''),
         (''formula'', PStr ''AVG(DATEDIFF(hour, Case.RegisteredOn, Case.SolutionDate))''),
         (''unit'', PStr ''hours''),
         (''frequency'', PStr ''weekly''),
         (''entities'', PList [PStr ''Case''])]),
       (''first_response_time'', PDict [
         (''name'', PStr ''First Response Time''),
         (''description'', PStr ''Average time to first response on cases''),
         (''formula'', PStr ''AVG(DATEDIFF(minute, Case.RegisteredOn, FirstActivity.StartDate))''),
         (''unit'', PStr ''minutes''),
         (''frequency'', PStr ''daily''),
         (''entities'', PList [PStr ''Case'', PStr ''Activity''])]),
       (''customer_satisfaction'', PDict [
         (''name'', PStr ''Customer Satisfaction (CSAT)''),
         (''description'', PStr ''Average satisfaction score from case surveys''),
         (''formula'', PStr ''AVG(Case.SatisfactionLevel.Score)''),
         (''unit'', PStr ''score''),
         (''frequency'', PStr ''weekly''),
         (''entities'', PList [PStr ''Case'', PStr ''SatisfactionLevel''])]),
       (''sla_compliance'', PDict [
         (''name'', PStr ''SLA Compliance Rate''),
         (''description'', PStr ''Percentage of cases resolved within SLA''),
         (''formula'', PStr ''(COUNT(Cases within SLA) / COUNT(All Cases)) * 100''),
         (''unit'', PStr ''percentage''),
         (''frequency'', PStr ''weekly''),
         (''entities'', PList [PStr ''Case'', PStr ''ServicePact''])]),
       (''case_backlog'', PDict [
         (''name'', PStr ''Case Backlog''),
         (''description'', PStr ''Number of open unresolved cases''),
         (''formula'', PStr ''COUNT(Case) WHERE Status.IsFinal = 0''),
         (''unit'', PStr ''count''),
         (''frequency'', PStr ''daily''),
         (''entities'', PList [PStr ''Case'', PStr ''CaseStatus''])]),
       (''escalation_rate'', PDict [
         (''name'', PStr ''Escalation Rate''),
         (''description'', PStr ''Percentage of cases that required escalation''),
         (''formula'', PStr ''(COUNT(Escalated Cases) / COUNT(All Cases)) * 100''),
         (''unit'', PStr ''percentage''),
         (''frequency'', PStr ''weekly''),
         (''entities'', PList [PStr ''Case''])])]"

definition customer_health_kpis :: pyval where
  "customer_health_kpis =
     PDict [
       (''customer_lifetime_value'', PDict [
         (''name'', PStr ''Customer Lifetime Value (CLV)''),
         (''description'', PStr ''Total revenue expected from a customer relationship''),
         (''formula'', PStr ''AVG Revenue per Period * Customer Lifespan''),
         (''unit'', PStr ''currency''),
         (''frequency'', PStr ''quarterly''),
         (''entities'', PList [PStr ''Account'', PStr ''Order'', PStr ''Opportunity''])]),
       (''churn_rate'', PDict [
         (''name'', PStr ''Churn Rate''),
         (''description'', PStr ''Percentage of customers lost in period''),
         (''formula'', PStr ''(Lost Customers / Total Customers at Start) * 100''),
         (''unit'', PStr ''percentage''),
         (''frequency'', PStr ''monthly''),
         (''entities'', PList [PStr ''Account''])]),
       (''net_promoter_score'', PDict [
         (''name'', PStr ''Net Promoter Score (NPS)''),
         (''description'', PStr ''Customer loyalty and satisfaction metric''),
         (''formula'', PStr ''% Promoters - % Detractors''),
         (''unit'', PStr ''score''),
         (''frequency'', PStr ''quarterly''),
         (''entities'', PList [PStr ''Contact'', PStr ''Survey''])]),
       (''customer_engagement_score'', PDict [
         (''name'', PStr ''Customer Engagement Score''),
         (''description'', PStr ''Composite score of customer interaction levels''),
         (''formula'', PStr ''Weighted sum of activities, responses, purchases''),
         (''unit'', PStr ''score''),
         (''frequency'', PStr ''monthly''),
         (''entities'', PList [PStr ''Account'', PStr ''Activity'', PStr ''Opportunity''])]),
       (''revenue_retention'', PDict [
         (''name'', PStr ''Revenue Retention Rate''),
         (''description'', PStr ''Percentage of revenue retained from existing customers''),
         (''formula'', PStr ''((End Revenue - New Revenue) / Start Revenue) * 100''),
         (''unit'', PStr ''percentage''),
         (''frequency'', PStr ''monthly''),
         (''entities'', PList [PStr ''Account'', PStr ''Order''])])]"

definition activity_metrics_kpis :: pyval where
  "activity_metrics_kpis =
     PDict [
       (''activities_per_rep'', PDict [
         (''name'', PStr ''Activities per Rep''),
         (''description'', PStr ''Number of activities logged per sales rep''),
         (''formula'', PStr ''COUNT(Activity) GROUP BY OwnerId''),
         (''unit'', PStr ''count''),
         (''frequency'', PStr ''weekly''),
         (''entities'', PList [PStr ''Activity'', PStr ''Contact''])]),
       (''calls_made'', PDict [
         (''name'', PStr ''Calls Made''),
         (''description'', PStr ''Number of call activities completed''),
         (''formula'', PStr (''COUNT(Activity) WHERE Type = 'Call'' @ SQ)),
         (''unit'', PStr ''count''),
         (''frequency'', PStr ''daily''),
         (''entities'', PList [PStr ''Activity'', PStr ''ActivityType''])]),
       (''emails_sent'', PDict [
         (''name'', PStr ''Emails Sent''),
         (''description'', PStr ''Number of email activities''),
         (''formula'', PStr (''COUNT(Activity) WHERE Type = 'Email'' @ SQ)),
         (''unit'', PStr ''count''),
         (''frequency'', PStr ''daily''),
         (''entities'', PList [PStr ''Activity'', PStr ''ActivityType''])]),
       (''meetings_held'', PDict [
         (''name'', PStr ''Meetings Held''),
         (''description'', PStr ''Number of meeting activities completed''),
         (''formula'', PStr (''COUNT(Activity) WHERE Type = 'Meeting' AND Status = 'Completed'' @ SQ)),
         (''unit'', PStr ''count''),
         (''frequency'', PStr ''weekly''),
         (''entities'', PList [PStr ''Activity'', PStr ''ActivityType'', PStr ''ActivityStatus''])])]"

definition CRM_KPI_LIBRARY :: "(string \<times> pyval) list" where
  "CRM_KPI_LIBRARY =
     [(''sales'', sales_kpis),
      (''marketing'', marketing_kpis),
      (''customer_service'', customer_service_kpis),
      (''customer_health'', customer_health_kpis),
      (''activity_metrics'', activity_metrics_kpis)]"

section \<open>Schema tools (schema_tools.py)\<close>

text \<open>\<open>len(v)\<close> of a sized value.\<close>

definition py_len :: "pyval \<Rightarrow> int option" where
  "py_len v =
     (case v of PList xs \<Rightarrow> Some (int (length xs)) | PStr s \<Rightarrow> Some (int (length s))
      | PDict kvs \<Rightarrow> Some (int (length kvs)) | _ \<Rightarrow> None)"

text \<open>
  The loop \<open>for key in CREATIO_SCHEMA_KNOWLEDGE: if key.lower() == name.lower(): ...; break\<close>,
  which every lookup tool repeats: the first key equal to \<open>name\<close> up to letter case.
\<close>

definition match_entity :: "string \<Rightarrow> string option" where
  "match_entity name =
     find (\<lambda>key. str_lower key = str_lower name) (map fst CREATIO_SCHEMA_KNOWLEDGE)"


subsection \<open>\<open>SchemaExplorerTool._run\<close>\<close>

definition SchemaExplorerTool_result :: "string \<Rightarrow> bool \<Rightarrow> pyval option" where
  "SchemaExplorerTool_result entity_name include_relationships =
     (let entity_key = str_strip entity_name;
          matched_entity = match_entity entity_key
      in if \<not> truthy matched_entity then
           (let available = map fst CREATIO_SCHEMA_KNOWLEDGE
            in Some (PDict [
                 (''success'', PBool False),
                 (''error'', PStr (''Entity '' @ SQ @ entity_name @ SQ @ '' not found in schema knowledge base'')),
                 (''available_entities'', PList (map PStr available)),
                 (''suggestion'', PStr (''Try one of: '' @ str_join '', '' available))]))
         else do {
           matched \<leftarrow> matched_entity;
           entity_info \<leftarrow> map_of CREATIO_SCHEMA_KNOWLEDGE matched;
           table_name \<leftarrow> getitem entity_info ''table_name'';
           description \<leftarrow> getitem entity_info ''description'';
           key_columns \<leftarrow> getitem entity_info ''key_columns'';
           column_count \<leftarrow> py_len key_columns;
           let result = [
                 (''success'', PBool True),
                 (''entity'', PStr matched),
                 (''table_name'', table_name),
                 (''description'', description),
                 (''columns'', key_columns),
                 (''column_count'', PInt column_count)];
           if include_relationships then do {
             relationships \<leftarrow> dict_get entity_info ''relationships'' (PList []);
             relationship_count \<leftarrow> py_len relationships;
             Some (PDict (dict_set (dict_set result ''relationships'' relationships)
                            ''relationship_count'' (PInt relationship_count)))
           } else Some (PDict result)
         })"


subsection \<open>\<open>EntityRelationshipTool._run\<close>\<close>





subsection \<open>\<open>ColumnAnalyzerTool._run\<close>\<close>

definition system_columns :: "string list" where
  "system_columns = [''CreatedOn'', ''ModifiedOn'', ''CreatedById'', ''ModifiedById'', ''ProcessListeners'']"

record categorized =
  primary_key :: "pyval list"
  foreign_keys :: "pyval list"
  lookup_references :: "pyval list"
  data_columns :: "pyval list"
  datetime_columns :: "pyval list"

definition categorized_empty :: categorized where
  "categorized_empty =
     \<lparr>primary_key = [], foreign_keys = [], lookup_references = [], data_columns = [],
      datetime_columns = []\<rparr>"

text \<open>One round of the loop \<open>for col in columns\<close>: the \<open>if\<close>/\<open>elif\<close> chain appends \<open>col\<close> to one list.\<close>

definition categorize_step :: "pyval \<Rightarrow> categorized \<Rightarrow> categorized option" where
  "categorize_step col cat = do {
     name \<leftarrow> getitem col ''name'';
     if name = PStr ''Id'' then Some (cat\<lparr>primary_key := primary_key cat @ [col]\<rparr>)
     else do {
       name_str \<leftarrow> as_str name;
       col_type \<leftarrow> getitem col ''type'';
       if str_endswith name_str ''Id'' \<and> col_type = PStr ''uniqueidentifier'' then do {
         description \<leftarrow> getstr col ''description'';
         if str_contains ''FK'' description
         then Some (cat\<lparr>foreign_keys := foreign_keys cat @ [col]\<rparr>)
         else Some (cat\<lparr>lookup_references := lookup_references cat @ [col]\<rparr>)
       } else do {
         type_str \<leftarrow> as_str col_type;
         if str_contains ''datetime'' type_str
         then Some (cat\<lparr>datetime_columns := datetime_columns cat @ [col]\<rparr>)
         else Some (cat\<lparr>data_columns := data_columns cat @ [col]\<rparr>)
       }
     }
   }"

definition categorize :: "pyval list \<Rightarrow> categorized option" where
  "categorize columns = fold_opt categorize_step columns categorized_empty"

text \<open>The two list comprehensions that narrow \<open>columns\<close>.\<close>

definition analyzed_columns :: "string \<Rightarrow> string option \<Rightarrow> bool \<Rightarrow> pyval list option" where
  "analyzed_columns entity_key column_filter include_system_columns = do {
     entity_info \<leftarrow> map_of CREATIO_SCHEMA_KNOWLEDGE entity_key;
     columns \<leftarrow> getlist entity_info ''key_columns'';
     columns \<leftarrow>
       (if \<not> include_system_columns
        then filter_opt (\<lambda>c. do { n \<leftarrow> getitem c ''name'';
                                  Some (n \<notin> set (map PStr system_columns)) }) columns
        else Some columns);
     (if truthy column_filter
      then do {
        f \<leftarrow> column_filter;
        filter_opt (\<lambda>c. do { n \<leftarrow> getstr c ''name'';
                             Some (str_contains (str_lower f) (str_lower n)) }) columns
      }
      else Some columns)
   }"

definition ColumnAnalyzerTool_result :: "string \<Rightarrow> string option \<Rightarrow> bool \<Rightarrow> pyval option" where
  "ColumnAnalyzerTool_result entity_name column_filter include_system_columns =
     (let entity_key = match_entity entity_name
      in if \<not> truthy entity_key then
           Some (PDict [
             (''success'', PBool False),
             (''error'', PStr (''Entity '' @ SQ @ entity_name @ SQ @ '' not found''))])
         else do {
           entity_key \<leftarrow> entity_key;
           columns \<leftarrow> analyzed_columns entity_key column_filter include_system_columns;
           cat \<leftarrow> categorize columns;
           Some (PDict [
             (''success'', PBool True),
             (''entity'', PStr entity_key),
             (''total_columns'', PInt (int (length columns))),
             (''columns'', PList columns),
             (''categorized'', PDict [
               (''primary_key'', PList (primary_key cat)),
               (''foreign_keys'', PList (foreign_keys cat)),
               (''lookup_references'', PList (lookup_references cat)),
               (''data_columns'', PList (data_columns cat)),
               (''datetime_columns'', PList (datetime_columns cat))]),
             (''analysis'', PDict [
               (''has_primary_key'', PBool (length (primary_key cat) > 0)),
               (''foreign_key_count'', PInt (int (length (foreign_keys cat)))),
               (''is_highly_relational'', PBool (length (foreign_keys cat) > 3))])])
         })"


subsection \<open>\<open>SchemaSearchTool._run\<close>\<close>







section \<open>Metrics tools (metrics_tools.py)\<close>

definition as_dict :: "pyval \<Rightarrow> (string \<times> pyval) list option" where
  "as_dict v = (case v of PDict kvs \<Rightarrow> Some kvs | _ \<Rightarrow> None)"


definition kpi_categories :: pyval where
  "kpi_categories = PList (map PStr (map fst CRM_KPI_LIBRARY))"

subsection \<open>\<open>MetricDefinitionTool._run\<close>\<close>










subsection \<open>\<open>MetricCalculatorTool._run\<close>\<close>

definition date_filters :: "(string \<times> string) list" where
  "date_filters = [
     (''today'', ''CAST(CreatedOn AS DATE) = CAST(GETDATE() AS DATE)''),
     (''last_week'', ''CreatedOn >= DATEADD(WEEK, -1, GETDATE())''),
     (''last_month'', ''CreatedOn >= DATEADD(MONTH, -1, GETDATE())''),
     (''last_quarter'', ''CreatedOn >= DATEADD(QUARTER, -1, GETDATE())''),
     (''ytd'', ''YEAR(CreatedOn) = YEAR(GETDATE())''),
     (''last_year'', ''CreatedOn >= DATEADD(YEAR, -1, GETDATE())'')]"

text \<open>\<open>filters.get(time_period, filters["last_month"])\<close>.\<close>

definition get_date_filter :: "string \<Rightarrow> string option" where
  "get_date_filter time_period = do {
     fallback \<leftarrow> map_of date_filters ''last_month'';
     Some (case map_of date_filters time_period of None \<Rightarrow> fallback | Some f \<Rightarrow> f)
   }"

definition generate_calculation_query :: "pyval \<Rightarrow> string \<Rightarrow> string option \<Rightarrow> string option" where
  "generate_calculation_query kpi time_period group_by = do {
     primary_entity \<leftarrow> getlist kpi ''entities'' \<bind> first_item \<bind> as_str;
     date_filter \<leftarrow> get_date_filter time_period;
     unit \<leftarrow> getitem kpi ''unit'';
     name \<leftarrow> getstr kpi ''name'';
     let name_lower = str_lower name;
     let count_query =
       NL @ ''SELECT COUNT(*) AS '' @ str_replace name '' '' '''' @ NL @
       ''FROM ['' @ primary_entity @ '']'' @ NL @
       ''WHERE '' @ date_filter @ NL;
     let duration_or_count =
       (if unit = PStr ''days'' \<or> unit = PStr ''hours'' then do {
          unit_str \<leftarrow> as_str unit;
          Some (NL @ ''SELECT AVG(DATEDIFF('' @ slice_to unit_str (- 1) @ '', CreatedOn, CloseDate)) AS ''
                  @ str_replace name '' '' '''' @ NL @
                ''FROM ['' @ primary_entity @ '']'' @ NL @
                ''WHERE '' @ date_filter @ NL)
        } else Some count_query);
     let currency_or_later =
       (if unit = PStr ''currency'' then
          (if str_contains ''pipeline'' name_lower then
             Some (NL @ ''SELECT SUM(o.Amount) AS PipelineValue'' @ NL @
                   ''FROM [Opportunity] o'' @ NL @
                   ''JOIN [OpportunityStage] s ON o.StageId = s.Id'' @ NL @
                   ''WHERE s.IsFinal = 0'' @ NL)
           else if str_contains ''average'' name_lower then
             Some (NL @ ''SELECT AVG(o.Amount) AS AverageDealSize'' @ NL @
                   ''FROM [Opportunity] o'' @ NL @
                   ''JOIN [OpportunityStage] s ON o.StageId = s.Id'' @ NL @
                   ''WHERE s.Name = 'Closed won'' @ SQ @ NL @
                   ''    AND '' @ date_filter @ NL)
           else duration_or_count)
        else duration_or_count);
     if unit = PStr ''percentage'' \<and> str_contains ''rate'' name_lower then
       (if str_contains ''win'' name_lower then
          Some (NL @ ''SELECT '' @ NL @
                ''    CAST(SUM(CASE WHEN s.Name = 'Closed won' THEN 1 ELSE 0 END) AS FLOAT) /'' @ NL @
                ''    NULLIF(COUNT(*), 0) * 100 AS WinRate'' @ NL @
                ''FROM [Opportunity] o'' @ NL @
                ''JOIN [OpportunityStage] s ON o.StageId = s.Id'' @ NL @
                ''WHERE s.IsFinal = 1'' @ NL @
                ''    AND '' @ date_filter @ NL)
        else if str_contains ''conversion'' name_lower then
          Some (NL @ ''SELECT '' @ NL @
                ''    CAST(SUM(CASE WHEN QualifiedContactId IS NOT NULL THEN 1 ELSE 0 END) AS FLOAT) /'' @ NL @
                ''    NULLIF(COUNT(*), 0) * 100 AS ConversionRate'' @ NL @
                ''FROM [Lead]'' @ NL @
                ''WHERE '' @ date_filter @ NL)
        else currency_or_later)
     else currency_or_later
   }"

definition MetricCalculatorTool_result :: "string \<Rightarrow> string \<Rightarrow> string option \<Rightarrow> pyval option" where
  "MetricCalculatorTool_result metric_id time_period group_by =
     (case str_split metric_id (CHR ''.'') of
        [category, metric_name] \<Rightarrow>
          (case map_of CRM_KPI_LIBRARY category of
             None \<Rightarrow>
               Some (PDict [
                 (''success'', PBool False),
                 (''error'', PStr (''Unknown category: '' @ category)),
                 (''available_categories'', kpi_categories)])
           | Some kpis \<Rightarrow> do {
               metrics \<leftarrow> as_dict kpis;
               (case map_of metrics metric_name of
                  None \<Rightarrow>
                    Some (PDict [
                      (''success'', PBool False),
                      (''error'', PStr (''Unknown metric: '' @ metric_name)),
                      (''available_metrics'', PList (map PStr (map fst metrics)))])
                | Some kpi \<Rightarrow> do {
                    sql_query \<leftarrow> generate_calculation_query kpi time_period group_by;
                    date_filter \<leftarrow> get_date_filter time_period;
                    name \<leftarrow> getitem kpi ''name'';
                    description \<leftarrow> getitem kpi ''description'';
                    unit \<leftarrow> getitem kpi ''unit'';
                    formula \<leftarrow> getitem kpi ''formula'';
                    entities \<leftarrow> getitem kpi ''entities'';
                    frequency \<leftarrow> getstr kpi ''frequency'';
                    Some (PDict [
                      (''success'', PBool True),
                      (''metric'', PDict [
                        (''id'', PStr metric_id),
                        (''name'', name),
                        (''description'', description),
                        (''unit'', unit)]),
                      (''calculation'', PDict [
                        (''formula'', formula),
                        (''sql_query'', PStr sql_query),
                        (''time_period'', PStr time_period),
                        (''date_filter'', PStr date_filter),
                        (''group_by'', opt_val group_by)]),
                      (''entities_required'', entities),
                      (''notes'', PList [
                        PStr (''Recommended calculation frequency: '' @ frequency),
                        PStr ''Ensure appropriate indexes exist for date columns'',
                        PStr ''Consider caching results for dashboard performance''])])
                  })
             })
      | _ \<Rightarrow>
          Some (PDict [
            (''success'', PBool False),
            (''error'', PStr ''Invalid metric_id format. Use 'category.metric_name' (e.g., 'sales.win_rate')''),
            (''available_categories'', kpi_categories)]))"


subsection \<open>\<open>KPILibraryTool._run\<close>\<close>

definition library_kpi ::
  "string \<Rightarrow> string option \<Rightarrow> string \<times> pyval \<Rightarrow> pyval list \<Rightarrow> pyval list option" where
  "library_kpi cat search_term item kpis =
     (case item of (kpi_id, kpi_info) \<Rightarrow> do {
        skip \<leftarrow>
          (if truthy search_term then do {
             term \<leftarrow> search_term;
             let term_lower = str_lower term;
             name \<leftarrow> getstr kpi_info ''name'';
             description \<leftarrow> getstr kpi_info ''description'';
             Some (\<not> str_contains term_lower (str_lower name)
                   \<and> \<not> str_contains term_lower (str_lower description))
           } else Some False);
        if skip then Some kpis
        else do {
          name \<leftarrow> getitem kpi_info ''name'';
          description \<leftarrow> getitem kpi_info ''description'';
          unit \<leftarrow> getitem kpi_info ''unit'';
          frequency \<leftarrow> getitem kpi_info ''frequency'';
          Some (kpis @ [PDict [
            (''id'', PStr (cat @ ''.'' @ kpi_id)),
            (''category'', PStr cat),
            (''name'', name),
            (''description'', description),
            (''unit'', unit),
            (''frequency'', frequency)]])
        }
      })"

definition library_category :: "string option \<Rightarrow> string \<Rightarrow> pyval list \<Rightarrow> pyval list option" where
  "library_category search_term cat kpis =
     (case map_of CRM_KPI_LIBRARY cat of
        None \<Rightarrow> Some kpis
      | Some entries \<Rightarrow> do {
          kvs \<leftarrow> as_dict entries;
          fold_opt (library_kpi cat search_term) kvs kpis
        })"

definition KPILibraryTool_result :: "string option \<Rightarrow> string option \<Rightarrow> pyval option" where
  "KPILibraryTool_result category search_term = do {
     categories_to_search \<leftarrow>
       (if truthy category then do { c \<leftarrow> category; Some [c] }
        else Some (map fst CRM_KPI_LIBRARY));
     kpis \<leftarrow> fold_opt (library_category search_term) categories_to_search [];
     Some (PDict [
       (''success'', PBool True),
       (''filter'', PDict [(''category'', opt_val category), (''search_term'', opt_val search_term)]),
       (''kpis'', PList kpis),
       (''summary'', PDict [
         (''total_kpis_found'', PInt (int (length kpis))),
         (''categories_searched'', PList (map PStr categories_to_search)),
         (''available_categories'', kpi_categories)])])
   }"


subsection \<open>\<open>DashboardDesignerTool._run\<close>\<close>








section \<open>Query tools (query_tools.py)\<close>

text \<open>
  \<open>_build_select\<close> puts a backslash inside the braces of an f-string, which Python reads
  from version 3.12 on; the model follows that reading.
\<close>

subsection \<open>\<open>SQLQueryBuilderTool._run\<close>\<close>

text \<open>\<open>s[0].lower()\<close>: IndexError on the empty string.\<close>

definition first_lower :: "string \<Rightarrow> string option" where
  "first_lower s = do { c \<leftarrow> first_item s; Some (str_lower [c]) }"

definition default_cols :: "(string \<times> string list) list" where
  "default_cols = [
     (''Contact'', [''c.Id'', ''c.Name'', ''c.Email'', ''c.Phone'', ''c.AccountId'']),
     (''Account'', [''a.Id'', ''a.Name'', ''a.Phone'', ''a.Web'', ''a.IndustryId'']),
     (''Opportunity'', [''o.Id'', ''o.Title'', ''o.Amount'', ''o.StageId'', ''o.CloseDate'']),
     (''Lead'', [''l.Id'', ''l.LeadName'', ''l.Email'', ''l.QualifyStatusId'']),
     (''Activity'', [''act.Id'', ''act.Title'', ''act.TypeId'', ''act.StartDate'']),
     (''Case'', [''cs.Id'', ''cs.Number'', ''cs.Subject'', ''cs.StatusId''])]"

definition build_select :: "string \<Rightarrow> string list \<Rightarrow> string option \<Rightarrow> string option" where
  "build_select primary entities aggregations =
     (let agg_cols =
            (if truthy aggregations then
               (let agg_funcs = [
                      (''count'', ''COUNT('' @ primary @ ''.Id) AS RecordCount''),
                      (''sum'', ''SUM('' @ primary @ ''.Amount) AS TotalAmount''),
                      (''avg'', ''AVG('' @ primary @ ''.Amount) AS AvgAmount'')];
                    agg_lower = str_lower (case aggregations of None \<Rightarrow> [] | Some a \<Rightarrow> a)
                in map snd (filter (\<lambda>(key, val). str_contains key agg_lower) agg_funcs))
             else [])
      in if agg_cols \<noteq> [] then Some (''SELECT'' @ NL @ ''    '' @ str_join '', '' agg_cols)
         else do {
           initial \<leftarrow> first_lower primary;
           let cols = (case map_of default_cols primary of
                         None \<Rightarrow> [initial @ ''.Id'', initial @ ''.Name'']
                       | Some cs \<Rightarrow> cs);
           Some (''SELECT'' @ NL @ ''    '' @ str_join ('','' @ NL @ ''    '') cols)
         })"

definition aliases :: "(string \<times> string) list" where
  "aliases = [(''Contact'', ''c''), (''Account'', ''a''), (''Opportunity'', ''o''), (''Lead'', ''l''),
     (''Activity'', ''act''), (''Case'', ''cs''), (''Product'', ''p''), (''Order'', ''ord'')]"

definition join_templates :: "((string \<times> string) \<times> string) list" where
  "join_templates = [
     ((''Contact'', ''Account''), ''LEFT JOIN [Account] a ON c.AccountId = a.Id''),
     ((''Account'', ''Contact''), ''LEFT JOIN [Contact] c ON c.AccountId = a.Id''),
     ((''Opportunity'', ''Account''), ''LEFT JOIN [Account] a ON o.AccountId = a.Id''),
     ((''Activity'', ''Contact''), ''LEFT JOIN [Contact] c ON act.ContactId = c.Id''),
     ((''Activity'', ''Account''), ''LEFT JOIN [Account] a ON act.AccountId = a.Id''),
     ((''Case'', ''Contact''), ''LEFT JOIN [Contact] c ON cs.ContactId = c.Id''),
     ((''Case'', ''Account''), ''LEFT JOIN [Account] a ON cs.AccountId = a.Id''),
     ((''Lead'', ''Contact''), ''LEFT JOIN [Contact] c ON l.QualifiedContactId = c.Id'')]"

text \<open>One round of \<open>for entity in entities[1:]\<close> in \<open>_build_from\<close>.\<close>

definition join_step :: "string \<Rightarrow> string \<Rightarrow> string \<Rightarrow> string option" where
  "join_step primary entity from_clause =
     (case map_of join_templates (primary, entity) of
        Some template \<Rightarrow> Some (from_clause @ NL @ template)
      | None \<Rightarrow>
          (case map_of join_templates (entity, primary) of
             Some template \<Rightarrow> Some (from_clause @ NL @ template)
           | None \<Rightarrow> do {
               initial \<leftarrow> first_lower entity;
               Some (from_clause @ NL @ ''-- Add JOIN for ['' @ entity @ ''] based on your relationship'')
             }))"

definition build_from :: "string list \<Rightarrow> string option" where
  "build_from entities = do {
     primary \<leftarrow> first_item entities;
     initial \<leftarrow> first_lower primary;
     let alias = (case map_of aliases primary of None \<Rightarrow> initial | Some a \<Rightarrow> a);
     fold_opt (join_step primary) (slice_from entities 1) (''FROM ['' @ primary @ ''] '' @ alias)
   }"

definition build_where :: "string \<Rightarrow> string" where
  "build_where filters =
     (let filter_lower = str_lower filters;
          conditions =
            (if str_contains ''this month'' filter_lower
             then [''CreatedOn >= DATEADD(MONTH, DATEDIFF(MONTH, 0, GETDATE()), 0)''] else [])
            @ (if str_contains ''this quarter'' filter_lower
               then [''CreatedOn >= DATEADD(QUARTER, DATEDIFF(QUARTER, 0, GETDATE()), 0)''] else [])
            @ (if str_contains ''this year'' filter_lower
               then [''YEAR(CreatedOn) = YEAR(GETDATE())''] else [])
            @ (if str_contains ''active'' filter_lower then [''IsActive = 1''] else [])
            @ (if str_contains ''closed'' filter_lower
               then [''StatusId IN (SELECT Id FROM [OpportunityStatus] WHERE IsFinal = 1)''] else [])
            @ (if str_contains ''won'' filter_lower
               then [''StageId = (SELECT Id FROM [OpportunityStage] WHERE Name = 'Closed won''
                      @ SQ @ '')''] else [])
      in if conditions \<noteq> []
         then ''WHERE'' @ NL @ ''    '' @ str_join (NL @ ''    AND '') conditions
         else ''WHERE -- Add conditions based on: '' @ filters)"

definition build_group :: "string \<Rightarrow> string" where
  "build_group grouping = ''GROUP BY '' @ grouping"

definition build_order :: "string \<Rightarrow> string" where
  "build_order order_by =
     (if str_contains ''newest'' (str_lower order_by) \<or> str_contains ''recent'' (str_lower order_by)
        then ''ORDER BY CreatedOn DESC''
      else if str_contains ''oldest'' (str_lower order_by) then ''ORDER BY CreatedOn ASC''
      else if str_contains ''amount'' (str_lower order_by) then ''ORDER BY Amount DESC''
      else ''ORDER BY '' @ order_by)"

definition explain_query ::
  "string \<Rightarrow> string list \<Rightarrow> string option \<Rightarrow> string option \<Rightarrow> string" where
  "explain_query primary entities filters aggregations =
     ''This query retrieves data from '' @ primary
     @ (if length entities > 1 then '' joined with '' @ str_join '', '' (slice_from entities 1) else [])
     @ (case filters of None \<Rightarrow> [] | Some f \<Rightarrow> if f \<noteq> [] then '' filtered by: '' @ f else [])
     @ (case aggregations of None \<Rightarrow> []
        | Some a \<Rightarrow> if a \<noteq> [] then '' with aggregations: '' @ a else [])"

definition SQLQueryBuilderTool_result ::
  "string \<Rightarrow> string \<Rightarrow> string option \<Rightarrow> string option \<Rightarrow> string option \<Rightarrow> string option
     \<Rightarrow> pyval option" where
  "SQLQueryBuilderTool_result objective entities filters aggregations grouping order_by = do {
     let entity_list = map str_strip (str_split entities (CHR '',''));
     primary_entity \<leftarrow> first_item entity_list;
     select_clause \<leftarrow> build_select primary_entity entity_list aggregations;
     from_clause \<leftarrow> build_from entity_list;
     let where_clause = (case filters of None \<Rightarrow> [] | Some f \<Rightarrow> if f \<noteq> [] then build_where f else []);
     let group_clause = (case grouping of None \<Rightarrow> [] | Some g \<Rightarrow> if g \<noteq> [] then build_group g else []);
     let order_clause = (case order_by of None \<Rightarrow> [] | Some ord \<Rightarrow> if ord \<noteq> [] then build_order ord else []);
     let query_parts = [select_clause, from_clause]
           @ (if where_clause \<noteq> [] then [where_clause] else [])
           @ (if group_clause \<noteq> [] then [group_clause] else [])
           @ (if order_clause \<noteq> [] then [order_clause] else []);
     let query = str_join NL query_parts @ '';'';
     Some (PDict [
       (''success'', PBool True),
       (''objective'', PStr objective),
       (''query'', PStr query),
       (''entities_used'', PList (map PStr entity_list)),
       (''query_type'', PStr ''SELECT''),
       (''has_aggregation'', PBool (aggregations \<noteq> None)),
       (''has_grouping'', PBool (grouping \<noteq> None)),
       (''explanation'', PStr (explain_query primary_entity entity_list filters aggregations)),
       (''performance_notes'', PList [
         PStr ''Consider adding indexes on filter columns'',
         PStr ''Use date range filters to limit result set'',
         PStr ''Add TOP clause for testing with large datasets''])])
   }"

definition SQLQueryBuilderTool_run ::
  "string \<Rightarrow> string \<Rightarrow> string option \<Rightarrow> string option \<Rightarrow> string option \<Rightarrow> string option
     \<Rightarrow> string option" where
  "SQLQueryBuilderTool_run objective entities filters aggregations grouping order_by =
     map_option py_repr
       (SQLQueryBuilderTool_result objective entities filters aggregations grouping order_by)"

subsection \<open>\<open>ODataQueryBuilderTool._run\<close>\<close>





subsection \<open>\<open>QueryOptimizerTool._run\<close>\<close>







subsection \<open>\<open>QueryValidatorTool._run\<close>\<close>







section \<open>Documentation tools (documentation_tools.py)\<close>

text \<open>
  \<open>entity_list\<close> and the loop that keeps, for each requested name, the first key equal to
  it up to letter case; shared by \<open>SchemaDocGeneratorTool\<close> and \<open>ERDGeneratorTool\<close>.
\<close>

definition parse_entities :: "string \<Rightarrow> string list" where
  "parse_entities entities =
     (let entity_list = (if str_lower entities = ''all'' then map fst CREATIO_SCHEMA_KNOWLEDGE
                         else map str_strip (str_split entities (CHR '','')))
      in List.map_filter match_entity entity_list)"


subsection \<open>\<open>SchemaDocGeneratorTool._run\<close>\<close>











subsection \<open>\<open>DataDictionaryTool._run\<close>\<close>










subsection \<open>\<open>ERDGeneratorTool._run\<close>\<close>

text \<open>\<open>tuple(sorted([entity, target]))\<close>: the two names in ascending order.\<close>

definition sorted_pair :: "string \<Rightarrow> string \<Rightarrow> string \<times> string" where
  "sorted_pair entity target = (if target < entity then (target, entity) else (entity, target))"

text \<open>
  The relationship loops of \<open>_generate_mermaid\<close> and \<open>_generate_plantuml\<close> are the same
  but for the line they append; \<open>render entity target rel_type\<close> is the list of lines
  appended for one relationship (one line for the four known types, none otherwise).
  The state is \<open>(added_rels, lines)\<close>.
\<close>

definition erd_rel_step ::
  "(string \<Rightarrow> string \<Rightarrow> pyval \<Rightarrow> 'a list) \<Rightarrow> string list \<Rightarrow> string \<Rightarrow> pyval
     \<Rightarrow> (string \<times> string) set \<times> 'a list \<Rightarrow> ((string \<times> string) set \<times> 'a list) option" where
  "erd_rel_step render entities entity rel st =
     (case st of (added_rels, lines) \<Rightarrow> do {
        target \<leftarrow> getstr rel ''entity'';
        if target \<notin> set entities then Some (added_rels, lines)
        else (let rel_key = sorted_pair entity target
              in if rel_key \<in> added_rels then Some (added_rels, lines)
                 else do {
                   rel_type \<leftarrow> getitem rel ''type'';
                   Some (insert rel_key added_rels, lines @ render entity target rel_type)
                 })
      })"

definition erd_entity_rels ::
  "(string \<Rightarrow> string \<Rightarrow> pyval \<Rightarrow> 'a list) \<Rightarrow> string list \<Rightarrow> string
     \<Rightarrow> (string \<times> string) set \<times> 'a list \<Rightarrow> ((string \<times> string) set \<times> 'a list) option" where
  "erd_entity_rels render entities entity st = do {
     info \<leftarrow> map_of CREATIO_SCHEMA_KNOWLEDGE entity;
     rels \<leftarrow> dict_get info ''relationships'' (PList []) \<bind> as_list;
     fold_opt (erd_rel_step render entities entity) rels st
   }"

definition erd_relationships ::
  "(string \<Rightarrow> string \<Rightarrow> pyval \<Rightarrow> 'a list) \<Rightarrow> string list \<Rightarrow> 'a list
     \<Rightarrow> ((string \<times> string) set \<times> 'a list) option" where
  "erd_relationships render entities lines =
     fold_opt (erd_entity_rels render entities) entities ({}, lines)"

definition mermaid_rel_line :: "string \<Rightarrow> string \<Rightarrow> pyval \<Rightarrow> string list" where
  "mermaid_rel_line entity target rel_type =
     (if rel_type = PStr ''one-to-many'' then [''    '' @ entity @ '' ||--o{ '' @ target @ '' : has'']
      else if rel_type = PStr ''many-to-one''
        then [''    '' @ entity @ '' }o--|| '' @ target @ '' : belongs_to'']
      else if rel_type = PStr ''many-to-many''
        then [''    '' @ entity @ '' }o--o{ '' @ target @ '' : relates'']
      else if rel_type = PStr ''one-to-one'' then [''    '' @ entity @ '' ||--|| '' @ target @ '' : is'']
      else [])"

definition mermaid_column :: "pyval \<Rightarrow> string option" where
  "mermaid_column col = do {
     type_str \<leftarrow> getstr col ''type'';
     let col_type = str_replace (str_replace (str_replace type_str ''('' ''_'') '')'' '''') '','' '''';
     name \<leftarrow> getitem col ''name'';
     let pk = (if name = PStr ''Id'' then ''PK'' else '''');
     name_str \<leftarrow> as_str name;
     let fk = (if str_endswith name_str ''Id'' \<and> name \<noteq> PStr ''Id'' then ''FK'' else '''');
     let marker = (if pk \<noteq> [] then pk else fk);
     Some (''        '' @ col_type @ '' '' @ name_str @ '' '' @ marker)
   }"

definition mermaid_entity :: "bool \<Rightarrow> string \<Rightarrow> string list option" where
  "mermaid_entity show_columns entity = do {
     info \<leftarrow> map_of CREATIO_SCHEMA_KNOWLEDGE entity;
     if show_columns then do {
       key_columns \<leftarrow> getlist info ''key_columns'';
       cols \<leftarrow> map_opt mermaid_column (slice_to key_columns 8);
       Some ([''    '' @ entity @ '' {''] @ cols @ [''    }''])
     } else Some [''    '' @ entity]
   }"

definition generate_mermaid :: "string list \<Rightarrow> bool \<Rightarrow> string option" where
  "generate_mermaid entities show_columns = do {
     entity_lines \<leftarrow> map_opt (mermaid_entity show_columns) entities;
     (added_rels, lines) \<leftarrow>
       erd_relationships mermaid_rel_line entities ([''erDiagram''] @ concat entity_lines);
     Some (str_join NL lines)
   }"

definition plantuml_rel_line :: "string \<Rightarrow> string \<Rightarrow> pyval \<Rightarrow> string list" where
  "plantuml_rel_line entity target rel_type =
     (if rel_type = PStr ''one-to-many'' then [entity @ '' ||--o{ '' @ target]
      else if rel_type = PStr ''many-to-one'' then [entity @ '' }o--|| '' @ target]
      else if rel_type = PStr ''many-to-many'' then [entity @ '' }o--o{ '' @ target]
      else if rel_type = PStr ''one-to-one'' then [entity @ '' ||--|| '' @ target]
      else [])"

definition plantuml_column :: "pyval \<Rightarrow> string option" where
  "plantuml_column col = do {
     name \<leftarrow> getstr col ''name'';
     let fk = (if str_endswith name ''Id'' then '' <<FK>>'' else '''');
     col_type \<leftarrow> getstr col ''type'';
     Some (''    '' @ name @ '' : '' @ col_type @ fk)
   }"

definition plantuml_entity :: "bool \<Rightarrow> string \<Rightarrow> string list option" where
  "plantuml_entity show_columns entity = do {
     info \<leftarrow> map_of CREATIO_SCHEMA_KNOWLEDGE entity;
     if show_columns then do {
       key_columns \<leftarrow> getlist info ''key_columns'';
       cols \<leftarrow> map_opt plantuml_column (py_slice key_columns 1 6);
       Some ([''entity '' @ entity @ '' {'', ''    * Id : uniqueidentifier <<PK>>''] @ cols @ [''}''])
     } else Some [''entity '' @ entity]
   }"

definition generate_plantuml :: "string list \<Rightarrow> bool \<Rightarrow> string option" where
  "generate_plantuml entities show_columns = do {
     entity_lines \<leftarrow> map_opt (plantuml_entity show_columns) entities;
     (added_rels, lines) \<leftarrow>
       erd_relationships plantuml_rel_line entities
         ([''@startuml'', ''skinparam linetype ortho'', ''''] @ concat entity_lines @ ['''']);
     Some (str_join NL (lines @ ['''', ''@enduml'']))
   }"








section \<open>Ticket tools (devlifecycle_crew/tools/ticket_tools.py)\<close>

subsection \<open>\<open>TicketCreatorTool._run\<close>\<close>



subsection \<open>\<open>TicketSearchTool._run\<close>\<close>



subsection \<open>\<open>TicketUpdaterTool._run\<close>\<close>




section \<open>Requirements tools (devlifecycle_crew/tools/requirements_tools.py)\<close>







section \<open>SDLC tools (devlifecycle_crew/tools/sdlc_tools.py)\<close>

subsection \<open>\<open>int(capacity * 0.85)\<close>\<close>





subsection \<open>\<open>SprintPlannerTool._run\<close>\<close>



subsection \<open>\<open>StatusTrackerTool._run\<close>\<close>



subsection \<open>\<open>RiskAssessmentTool._run\<close>\<close>



section \<open>Calling a tool\<close>







section \<open>Routing a question (\<open>CreatioCRMCrew.ask_question\<close>, crew.py)\<close>

datatype agent = schema_analyst | data_architect | metrics_expert | query_builder

datatype task =
    answer_schema_question agent string
  | build_query_from_question agent string
  | answer_metrics_question agent string

definition schema_words :: "string list" where
  "schema_words = [''schema'', ''table'', ''column'', ''entity'', ''relationship'', ''structure'']"

definition query_words :: "string list" where
  "query_words = [''query'', ''sql'', ''odata'', ''select'', ''join'', ''extract'']"

definition metrics_words :: "string list" where
  "metrics_words = [''kpi'', ''metric'', ''measure'', ''dashboard'', ''report'', ''analytics'']"

text \<open>\<open>any(word in question_lower for word in words)\<close>.\<close>

definition any_word :: "string list \<Rightarrow> string \<Rightarrow> bool" where
  "any_word ws question_lower = list_ex (\<lambda>word. str_contains word question_lower) ws"

text \<open>The task and the agent that \<open>ask_question\<close> selects before it builds the crew.\<close>

definition route_question :: "string \<Rightarrow> task \<times> agent" where
  "route_question question =
     (let question_lower = str_lower question
      in if any_word schema_words question_lower
           then (answer_schema_question schema_analyst question, schema_analyst)
         else if any_word query_words question_lower
           then (build_query_from_question query_builder question, query_builder)
         else if any_word metrics_words question_lower
           then (answer_metrics_question metrics_expert question, metrics_expert)
         else (answer_schema_question schema_analyst question, schema_analyst))"

text \<open>
  \<open>Crew(agents=[agent], tasks=[task], ...).kickoff()\<close> belongs to the external framework;
  \<open>kickoff\<close> stands for it.
\<close>

definition ask_question :: "(agent list \<Rightarrow> task list \<Rightarrow> 'r) \<Rightarrow> string \<Rightarrow> 'r" where
  "ask_question kickoff question =
     (case route_question question of (task, agent) \<Rightarrow> kickoff [agent] [task])"


section \<open>Predicates used in the statements\<close>

definition is_str :: "pyval \<Rightarrow> bool" where
  "is_str v = (case v of PStr s \<Rightarrow> True | _ \<Rightarrow> False)"

definition wf_kpi :: "pyval \<Rightarrow> bool" where
  "wf_kpi kpi = (\<exists>n d f u fr e es.
     kpi = PDict [(''name'', PStr n), (''description'', PStr d), (''formula'', PStr f),
                  (''unit'', PStr u), (''frequency'', PStr fr), (''entities'', PList (PStr e # es))]
     \<and> list_all is_str es)"

definition spec_route :: "string \<Rightarrow> agent" where
  "spec_route question =
     (let q = str_lower question
      in if str_contains ''schema'' q \<or> str_contains ''table'' q \<or> str_contains ''column'' q
            \<or> str_contains ''entity'' q \<or> str_contains ''relationship'' q \<or> str_contains ''structure'' q
           then schema_analyst
         else if str_contains ''query'' q \<or> str_contains ''sql'' q \<or> str_contains ''odata'' q
            \<or> str_contains ''select'' q \<or> str_contains ''join'' q \<or> str_contains ''extract'' q
           then query_builder
         else if str_contains ''kpi'' q \<or> str_contains ''metric'' q \<or> str_contains ''measure'' q
            \<or> str_contains ''dashboard'' q \<or> str_contains ''report'' q \<or> str_contains ''analytics'' q
           then metrics_expert
         else schema_analyst)"

definition wf_col :: "pyval \<Rightarrow> bool" where
  "wf_col col = (\<exists>n t d. col = PDict [(''name'', PStr n), (''type'', PStr t), (''description'', PStr d)])"

definition wf_rel :: "pyval \<Rightarrow> bool" where
  "wf_rel rel = (\<exists>e t more. rel = PDict ((''entity'', PStr e) # (''type'', PStr t) # more))"

definition wf_entity :: "pyval \<Rightarrow> bool" where
  "wf_entity info = (\<exists>d t cols rels.
     info = PDict [(''description'', PStr d), (''table_name'', PStr t),
                   (''key_columns'', PList cols), (''relationships'', PList rels)]
     \<and> list_all wf_col cols \<and> list_all wf_rel rels)"

definition column_class :: "pyval \<Rightarrow> nat option" where
  "column_class col =
     map_option (\<lambda>cat. if primary_key cat \<noteq> [] then 0
                        else if foreign_keys cat \<noteq> [] then 1
                        else if lookup_references cat \<noteq> [] then 2
                        else if data_columns cat \<noteq> [] then 3 else 4)
       (categorize_step col categorized_empty)"

definition in_class :: "nat \<Rightarrow> pyval \<Rightarrow> bool" where
  "in_class i col = (column_class col = Some i)"

definition rendered :: "(string \<Rightarrow> string \<Rightarrow> pyval \<Rightarrow> 'a list) \<Rightarrow> (string \<times> string \<times> pyval) list \<Rightarrow> 'a list" where
  "rendered render emitted = concat (map (\<lambda>(entity, target, rel_type). render entity target rel_type) emitted)"

definition rel_key :: "string \<times> string \<times> pyval \<Rightarrow> string \<times> string" where
  "rel_key r = (case r of (entity, target, rel_type) \<Rightarrow> sorted_pair entity target)"

definition endpoints :: "string \<times> string \<times> pyval \<Rightarrow> string set" where
  "endpoints r = (case r of (entity, target, rel_type) \<Rightarrow> {entity, target})"

definition erd_inv ::
  "(string \<Rightarrow> string \<Rightarrow> pyval \<Rightarrow> 'a list) \<Rightarrow> string list \<Rightarrow> 'a list
     \<Rightarrow> (string \<times> string) set \<times> 'a list \<Rightarrow> bool" where
  "erd_inv render entities lines0 st =
     (\<exists>emitted. snd st = lines0 @ rendered render emitted \<and>
        distinct (map rel_key emitted) \<and> rel_key ` set emitted \<subseteq> fst st \<and>
        (\<forall>r \<in> set emitted. endpoints r \<subseteq> set entities))"

definition plantuml_head :: "string list" where
  "plantuml_head = [''@startuml'', ''skinparam linetype ortho'', []]"

text \<open>The agent a task is assigned to, and the question it carries.\<close>

definition task_agent :: "task \<Rightarrow> agent" where
  "task_agent t = (case t of answer_schema_question a q \<Rightarrow> a
                   | build_query_from_question a q \<Rightarrow> a | answer_metrics_question a q \<Rightarrow> a)"

definition task_question :: "task \<Rightarrow> string" where
  "task_question t = (case t of answer_schema_question a q \<Rightarrow> q
                      | build_query_from_question a q \<Rightarrow> q | answer_metrics_question a q \<Rightarrow> q)"

text \<open>The task the routing rule pairs with each agent.\<close>

definition spec_task :: "string \<Rightarrow> task" where
  "spec_task question =
     (case spec_route question of
        schema_analyst \<Rightarrow> answer_schema_question schema_analyst question
      | query_builder \<Rightarrow> build_query_from_question query_builder question
      | metrics_expert \<Rightarrow> answer_metrics_question metrics_expert question
      | data_architect \<Rightarrow> answer_schema_question data_architect question)"

text \<open>\<open>r[k]\<close> on the result of a tool.\<close>

definition field_of :: "pyval option \<Rightarrow> string \<Rightarrow> pyval option" where
  "field_of r k = r \<bind> (\<lambda>d. getitem d k)"

text \<open>
  The query that \<open>_generate_calculation_query\<close> returns for a currency metric whose name
  contains \<open>pipeline\<close> (metrics_tools.py, lines 530 to 537).
\<close>

definition pipeline_sql :: string where
  "pipeline_sql =
     NL @ ''SELECT SUM(o.Amount) AS PipelineValue'' @ NL @
     ''FROM [Opportunity] o'' @ NL @
     ''JOIN [OpportunityStage] s ON o.StageId = s.Id'' @ NL @
     ''WHERE s.IsFinal = 0'' @ NL"




text \<open>
  A field of a stored record as it stands, and the entry \<open>KPILibraryTool._run\<close> lists for a
  stored metric: its id, category, name, description, unit and frequency.
\<close>

definition kpi_field :: "pyval \<Rightarrow> string \<Rightarrow> pyval" where
  "kpi_field record k = (case getitem record k of Some v \<Rightarrow> v | None \<Rightarrow> PNone)"

definition library_entry :: "string \<Rightarrow> string \<times> pyval \<Rightarrow> pyval" where
  "library_entry category item =
     (case item of (kpi_id, kpi_info) \<Rightarrow>
        PDict [(''id'', PStr (category @ ''.'' @ kpi_id)),
               (''category'', PStr category),
               (''name'', kpi_field kpi_info ''name''),
               (''description'', kpi_field kpi_info ''description''),
               (''unit'', kpi_field kpi_info ''unit''),
               (''frequency'', kpi_field kpi_info ''frequency'')])"



section \<open>Facts about the tables and shared lemmas\<close>

lemma kpi_keys:
  "map fst CRM_KPI_LIBRARY = [''sales'', ''marketing'', ''customer_service'', ''customer_health'', ''activity_metrics'']"
  by (simp add: CRM_KPI_LIBRARY_def)

lemma kpi_library_cases:
  assumes "map_of CRM_KPI_LIBRARY category = Some kpis"
  shows "kpis = sales_kpis \<or> kpis = marketing_kpis \<or> kpis = customer_service_kpis
         \<or> kpis = customer_health_kpis \<or> kpis = activity_metrics_kpis"
  using assms by (auto simp: CRM_KPI_LIBRARY_def split: if_splits)

lemma sales_wf: "getitem sales_kpis m = Some kpi \<Longrightarrow> wf_kpi kpi"
  by (auto simp: getitem_def sales_kpis_def wf_kpi_def is_str_def split: if_splits)
lemma marketing_wf: "getitem marketing_kpis m = Some kpi \<Longrightarrow> wf_kpi kpi"
  by (auto simp: getitem_def marketing_kpis_def wf_kpi_def is_str_def split: if_splits)
lemma customer_service_wf: "getitem customer_service_kpis m = Some kpi \<Longrightarrow> wf_kpi kpi"
  by (auto simp: getitem_def customer_service_kpis_def wf_kpi_def is_str_def split: if_splits)
lemma customer_health_wf: "getitem customer_health_kpis m = Some kpi \<Longrightarrow> wf_kpi kpi"
  by (auto simp: getitem_def customer_health_kpis_def wf_kpi_def is_str_def split: if_splits)
lemma activity_metrics_wf: "getitem activity_metrics_kpis m = Some kpi \<Longrightarrow> wf_kpi kpi"
  by (auto simp: getitem_def activity_metrics_kpis_def wf_kpi_def is_str_def split: if_splits)

lemma kpi_wf:
  assumes "map_of CRM_KPI_LIBRARY category = Some kpis" and "getitem kpis m = Some kpi"
  shows "wf_kpi kpi"
  using kpi_library_cases [OF assms(1)] assms(2)
    sales_wf marketing_wf customer_service_wf customer_health_wf activity_metrics_wf
  by blast

lemma get_date_filter_unknown:
  "time_period \<notin> {''today'', ''last_week'', ''last_month'', ''last_quarter'', ''ytd'', ''last_year''}
   \<Longrightarrow> get_date_filter time_period = Some ''CreatedOn >= DATEADD(MONTH, -1, GETDATE())''"
  by (simp add: get_date_filter_def date_filters_def)

lemma get_date_filter_last_month:
  "get_date_filter ''last_month'' = Some ''CreatedOn >= DATEADD(MONTH, -1, GETDATE())''"
  by (simp add: get_date_filter_def date_filters_def)

lemma query_depends_on_filter:
  "get_date_filter tp = get_date_filter tp'
   \<Longrightarrow> generate_calculation_query kpi tp gb = generate_calculation_query kpi tp' gb"
  by (simp add: generate_calculation_query_def)

lemma wf_kpi_query:
  assumes "wf_kpi kpi" and "get_date_filter tp = Some f"
  shows "\<exists>sql. generate_calculation_query kpi tp gb = Some sql"
proof -
  from assms(1) obtain n d fo u fr e es where
    kpi: "kpi = PDict [(''name'', PStr n), (''description'', PStr d), (''formula'', PStr fo),
                  (''unit'', PStr u), (''frequency'', PStr fr), (''entities'', PList (PStr e # es))]"
    unfolding wf_kpi_def by blast
  show ?thesis
    unfolding generate_calculation_query_def kpi
    by (simp add: assms(2) getlist_def getstr_def getitem_def as_list_def as_str_def first_item_def Let_def)
qed

lemma calculator_known_metric:
  assumes "str_split metric_id (CHR ''.'') = [category, metric_name]"
    and "map_of CRM_KPI_LIBRARY category = Some kpis"
    and "getitem kpis metric_name = Some kpi"
    and "get_date_filter time_period = Some date_filter"
  shows "\<exists>sql name description unit formula entities frequency.
           generate_calculation_query kpi time_period group_by = Some sql \<and>
           getitem kpi ''name'' = Some name \<and> getitem kpi ''description'' = Some description \<and>
           getitem kpi ''unit'' = Some unit \<and> getitem kpi ''formula'' = Some formula \<and>
           getitem kpi ''entities'' = Some entities \<and> getstr kpi ''frequency'' = Some frequency \<and>
           MetricCalculatorTool_result metric_id time_period group_by =
             Some (PDict [
               (''success'', PBool True),
               (''metric'', PDict [
                 (''id'', PStr metric_id),
                 (''name'', name),
                 (''description'', description),
                 (''unit'', unit)]),
               (''calculation'', PDict [
                 (''formula'', formula),
                 (''sql_query'', PStr sql),
                 (''time_period'', PStr time_period),
                 (''date_filter'', PStr date_filter),
                 (''group_by'', opt_val group_by)]),
               (''entities_required'', entities),
               (''notes'', PList [
                 PStr (''Recommended calculation frequency: '' @ frequency),
                 PStr ''Ensure appropriate indexes exist for date columns'',
                 PStr ''Consider caching results for dashboard performance''])])"
proof -
  have wf: "wf_kpi kpi" by (rule kpi_wf [OF assms(2,3)])
  obtain sql where sql: "generate_calculation_query kpi time_period group_by = Some sql"
    using wf_kpi_query [OF wf assms(4)] by blast
  from wf obtain n d fo u fr e es where
    kpi: "kpi = PDict [(''name'', PStr n), (''description'', PStr d), (''formula'', PStr fo),
                  (''unit'', PStr u), (''frequency'', PStr fr), (''entities'', PList (PStr e # es))]"
    unfolding wf_kpi_def by blast
  from assms(3) obtain metrics where kpis: "kpis = PDict metrics" and m: "map_of metrics metric_name = Some kpi"
    by (auto simp: getitem_def split: pyval.splits)
  have fields: "getitem kpi ''name'' = Some (PStr n)" "getitem kpi ''description'' = Some (PStr d)"
    "getitem kpi ''unit'' = Some (PStr u)" "getitem kpi ''formula'' = Some (PStr fo)"
    "getitem kpi ''entities'' = Some (PList (PStr e # es))" "getstr kpi ''frequency'' = Some fr"
    unfolding kpi by (simp_all add: getitem_def getstr_def as_str_def)
  have "MetricCalculatorTool_result metric_id time_period group_by =
             Some (PDict [
               (''success'', PBool True),
               (''metric'', PDict [
                 (''id'', PStr metric_id),
                 (''name'', PStr n),
                 (''description'', PStr d),
                 (''unit'', PStr u)]),
               (''calculation'', PDict [
                 (''formula'', PStr fo),
                 (''sql_query'', PStr sql),
                 (''time_period'', PStr time_period),
                 (''date_filter'', PStr date_filter),
                 (''group_by'', opt_val group_by)]),
               (''entities_required'', PList (PStr e # es)),
               (''notes'', PList [
                 PStr (''Recommended calculation frequency: '' @ fr),
                 PStr ''Ensure appropriate indexes exist for date columns'',
                 PStr ''Consider caching results for dashboard performance''])])"
    unfolding MetricCalculatorTool_result_def
    by (simp add: assms(1,2,4) kpis m sql fields as_dict_def)
  with sql fields show ?thesis by blast
qed

lemma schema_keys:
  "map fst CREATIO_SCHEMA_KNOWLEDGE =
     [''Contact'', ''Account'', ''Opportunity'', ''Lead'', ''Activity'', ''Case'', ''Product'',
      ''Order'', ''SysAdminUnit'']"
  by (simp add: CREATIO_SCHEMA_KNOWLEDGE_def)

lemma schema_cases:
  assumes "map_of CREATIO_SCHEMA_KNOWLEDGE k = Some info"
  shows "info = Contact_info \<or> info = Account_info \<or> info = Opportunity_info \<or> info = Lead_info
         \<or> info = Activity_info \<or> info = Case_info \<or> info = Product_info \<or> info = Order_info
         \<or> info = SysAdminUnit_info"
  using assms by (auto simp: CREATIO_SCHEMA_KNOWLEDGE_def split: if_splits)

lemma Contact_wf: "wf_entity Contact_info"
  by (simp add: Contact_info_def wf_entity_def wf_col_def wf_rel_def)
lemma Account_wf: "wf_entity Account_info"
  by (simp add: Account_info_def wf_entity_def wf_col_def wf_rel_def)
lemma Opportunity_wf: "wf_entity Opportunity_info"
  by (simp add: Opportunity_info_def wf_entity_def wf_col_def wf_rel_def)
lemma Lead_wf: "wf_entity Lead_info"
  by (simp add: Lead_info_def wf_entity_def wf_col_def wf_rel_def)
lemma Activity_wf: "wf_entity Activity_info"
  by (simp add: Activity_info_def wf_entity_def wf_col_def wf_rel_def)
lemma Case_wf: "wf_entity Case_info"
  by (simp add: Case_info_def wf_entity_def wf_col_def wf_rel_def)
lemma Product_wf: "wf_entity Product_info"
  by (simp add: Product_info_def wf_entity_def wf_col_def wf_rel_def)
lemma Order_wf: "wf_entity Order_info"
  by (simp add: Order_info_def wf_entity_def wf_col_def wf_rel_def)
lemma SysAdminUnit_wf: "wf_entity SysAdminUnit_info"
  by (simp add: SysAdminUnit_info_def wf_entity_def wf_col_def wf_rel_def)

lemma schema_wf:
  assumes "map_of CREATIO_SCHEMA_KNOWLEDGE k = Some info"
  shows "wf_entity info"
  using schema_cases [OF assms] Contact_wf Account_wf Opportunity_wf Lead_wf Activity_wf Case_wf
    Product_wf Order_wf SysAdminUnit_wf
  by blast

lemma schema_distinct: "distinct (map fst CREATIO_SCHEMA_KNOWLEDGE)"
  unfolding schema_keys by simp

lemma schema_key_info:
  assumes "k \<in> set (map fst CREATIO_SCHEMA_KNOWLEDGE)"
  shows "\<exists>info. map_of CREATIO_SCHEMA_KNOWLEDGE k = Some info \<and> wf_entity info"
proof -
  from assms obtain info where "map_of CREATIO_SCHEMA_KNOWLEDGE k = Some info"
    by (metis map_of_eq_None_iff not_Some_eq set_map)
  then show ?thesis using schema_wf by blast
qed

lemma match_entity_in_keys:
  "match_entity name = Some k \<Longrightarrow> k \<in> set (map fst CREATIO_SCHEMA_KNOWLEDGE)"
  unfolding match_entity_def by (auto simp: find_Some_iff)

lemma schema_keys_nonempty: "k \<in> set (map fst CREATIO_SCHEMA_KNOWLEDGE) \<Longrightarrow> k \<noteq> []"
  unfolding schema_keys by auto

subsection \<open>Loops over fallible bodies\<close>

lemma filter_opt_total:
  "(\<And>x. x \<in> set xs \<Longrightarrow> p x = Some (q x)) \<Longrightarrow> filter_opt p xs = Some (filter q xs)"
  by (induction xs) auto

lemma map_opt_total:
  "(\<And>x. x \<in> set xs \<Longrightarrow> f x = Some (g x)) \<Longrightarrow> map_opt f xs = Some (map g xs)"
  by (induction xs) auto

lemma fold_opt_append:
  "fold_opt f (xs @ ys) s = fold_opt f xs s \<bind> fold_opt f ys"
  by (induction xs arbitrary: s) (auto split: Option.bind_splits)

subsection \<open>The categories of \<open>ColumnAnalyzerTool\<close>\<close>

lemma categorize_step_class:
  "categorize_step col cat =
     (case column_class col of
        None \<Rightarrow> None
      | Some i \<Rightarrow>
          Some (if i = 0 then cat\<lparr>primary_key := primary_key cat @ [col]\<rparr>
                else if i = 1 then cat\<lparr>foreign_keys := foreign_keys cat @ [col]\<rparr>
                else if i = 2 then cat\<lparr>lookup_references := lookup_references cat @ [col]\<rparr>
                else if i = 3 then cat\<lparr>data_columns := data_columns cat @ [col]\<rparr>
                else cat\<lparr>datetime_columns := datetime_columns cat @ [col]\<rparr>))"
  unfolding column_class_def categorize_step_def categorized_empty_def
  by (auto split: Option.bind_splits option.splits)

lemma wf_col_class: "wf_col col \<Longrightarrow> \<exists>i. column_class col = Some i"
  unfolding wf_col_def column_class_def categorize_step_def
  by (auto simp: getitem_def getstr_def as_str_def)

lemma column_class_bound: "column_class col = Some i \<Longrightarrow> i < 5"
  unfolding column_class_def by (auto split: if_splits)

lemma in_class_iff: "in_class j c \<longleftrightarrow> column_class c = Some j"
  by (simp add: in_class_def)

lemma categorize_fold:
  assumes "\<And>c. c \<in> set cols \<Longrightarrow> column_class c \<noteq> None"
  shows "fold_opt categorize_step cols cat =
     Some \<lparr>primary_key = primary_key cat @ filter (in_class 0) cols,
           foreign_keys = foreign_keys cat @ filter (in_class 1) cols,
           lookup_references = lookup_references cat @ filter (in_class 2) cols,
           data_columns = data_columns cat @ filter (in_class 3) cols,
           datetime_columns = datetime_columns cat @ filter (in_class 4) cols\<rparr>"
  using assms
proof (induction cols arbitrary: cat)
  case Nil
  then show ?case by simp
next
  case (Cons c cols)
  from Cons.prems obtain i where i: "column_class c = Some i" by auto
  have b: "i < 5" by (rule column_class_bound [OF i])
  have rest: "\<And>x. x \<in> set cols \<Longrightarrow> column_class x \<noteq> None" using Cons.prems by simp
  define cat' where "cat' =
     (if i = 0 then cat\<lparr>primary_key := primary_key cat @ [c]\<rparr>
      else if i = 1 then cat\<lparr>foreign_keys := foreign_keys cat @ [c]\<rparr>
      else if i = 2 then cat\<lparr>lookup_references := lookup_references cat @ [c]\<rparr>
      else if i = 3 then cat\<lparr>data_columns := data_columns cat @ [c]\<rparr>
      else cat\<lparr>datetime_columns := datetime_columns cat @ [c]\<rparr>)"
  have step: "categorize_step c cat = Some cat'"
    unfolding cat'_def by (simp add: categorize_step_class [of c cat] i)
  have "fold_opt categorize_step (c # cols) cat = fold_opt categorize_step cols cat'"
    by (simp add: step)
  also note Cons.IH [OF rest, of cat']
  finally have eq: "fold_opt categorize_step (c # cols) cat =
     Some \<lparr>primary_key = primary_key cat' @ filter (in_class 0) cols,
           foreign_keys = foreign_keys cat' @ filter (in_class 1) cols,
           lookup_references = lookup_references cat' @ filter (in_class 2) cols,
           data_columns = data_columns cat' @ filter (in_class 3) cols,
           datetime_columns = datetime_columns cat' @ filter (in_class 4) cols\<rparr>" .
  from b consider "i = 0" | "i = 1" | "i = 2" | "i = 3" | "i = 4" by linarith
  then show ?case
    by cases (simp_all only: eq, simp_all add: cat'_def in_class_iff [of _ c] i)
qed

lemma categorize_total:
  assumes "list_all wf_col cols"
  shows "categorize cols =
     Some \<lparr>primary_key = filter (in_class 0) cols,
           foreign_keys = filter (in_class 1) cols,
           lookup_references = filter (in_class 2) cols,
           data_columns = filter (in_class 3) cols,
           datetime_columns = filter (in_class 4) cols\<rparr>"
proof -
  have "\<And>c. c \<in> set cols \<Longrightarrow> column_class c \<noteq> None"
    using assms wf_col_class by (fastforce simp: list_all_iff)
  from categorize_fold [OF this, where cat = categorized_empty] show ?thesis
    by (simp add: categorize_def categorized_empty_def)
qed

lemma class_partition_length:
  assumes "\<And>c. c \<in> set cols \<Longrightarrow> \<exists>i<5. column_class c = Some i"
  shows "length (filter (in_class 0) cols) + length (filter (in_class 1) cols)
         + length (filter (in_class 2) cols) + length (filter (in_class 3) cols)
         + length (filter (in_class 4) cols) = length cols"
  using assms
proof (induction cols)
  case Nil
  then show ?case by simp
next
  case (Cons c cols)
  then obtain i where i: "i < 5" "column_class c = Some i" by auto
  have "\<And>x. x \<in> set cols \<Longrightarrow> \<exists>i<5. column_class x = Some i" using Cons.prems by simp
  from Cons.IH [OF this] i show ?case
    by (auto simp: in_class_iff [of _ c])
qed

lemma class_partition_mset:
  assumes "\<And>c. c \<in> set cols \<Longrightarrow> \<exists>i<5. column_class c = Some i"
  shows "mset (filter (in_class 0) cols) + mset (filter (in_class 1) cols)
         + mset (filter (in_class 2) cols) + mset (filter (in_class 3) cols)
         + mset (filter (in_class 4) cols) = mset cols"
  using assms
proof (induction cols)
  case Nil
  then show ?case by simp
next
  case (Cons c cols)
  then obtain i where i: "i < 5" "column_class c = Some i" by auto
  have "\<And>x. x \<in> set cols \<Longrightarrow> \<exists>i<5. column_class x = Some i" using Cons.prems by simp
  from Cons.IH [OF this] have ih: "mset (filter (in_class 0) cols) + mset (filter (in_class 1) cols)
         + mset (filter (in_class 2) cols) + mset (filter (in_class 3) cols)
         + mset (filter (in_class 4) cols) = mset cols" .
  from i(1) consider "i = 0" | "i = 1" | "i = 2" | "i = 3" | "i = 4" by linarith
  then show ?case
    by cases (use ih in \<open>simp_all add: in_class_iff [of _ c] i(2)\<close>)
qed

lemma class_disjoint:
  "i \<noteq> j \<Longrightarrow> set (filter (in_class i) cols) \<inter> set (filter (in_class j) cols) = {}"
  by (auto simp: in_class_iff)

lemma filter_opt_some:
  assumes "\<And>x. x \<in> set xs \<Longrightarrow> p x \<noteq> None"
  shows "filter_opt p xs = Some (filter (\<lambda>x. p x = Some True) xs)"
  using assms
proof (induction xs)
  case Nil
  then show ?case by simp
next
  case (Cons a xs)
  then obtain b where b: "p a = Some b" by auto
  have "filter_opt p xs = Some (filter (\<lambda>x. p x = Some True) xs)"
    using Cons by simp
  then show ?case using b by (cases b) simp_all
qed

lemma wf_entity_fields:
  assumes "wf_entity info"
  obtains d t cols rels where
    "info = PDict [(''description'', PStr d), (''table_name'', PStr t),
                   (''key_columns'', PList cols), (''relationships'', PList rels)]"
    "list_all wf_col cols" "list_all wf_rel rels"
  using assms unfolding wf_entity_def by blast

lemma fold_opt_invariant:
  assumes "fold_opt f xs s = Some s'" and "I s"
    and "\<And>x s s'. x \<in> set xs \<Longrightarrow> I s \<Longrightarrow> f x s = Some s' \<Longrightarrow> I s'"
  shows "I s'"
  using assms
proof (induction xs arbitrary: s)
  case Nil
  then show ?case by simp
next
  case (Cons x xs)
  from Cons.prems(1) obtain s1 where s1: "f x s = Some s1" and rest: "fold_opt f xs s1 = Some s'"
    by (auto split: Option.bind_splits)
  have s1_ok: "I s1" using Cons.prems(3) [of x s s1] Cons.prems(2) s1 by simp
  show ?case
    by (rule Cons.IH [OF rest s1_ok]) (use Cons.prems(3) in auto)
qed

lemma fold_opt_total:
  assumes "\<And>x s. x \<in> set xs \<Longrightarrow> f x s \<noteq> None"
  shows "fold_opt f xs s \<noteq> None"
  using assms
proof (induction xs arbitrary: s)
  case Nil
  then show ?case by simp
next
  case (Cons x xs)
  then obtain s1 where "f x s = Some s1" by fastforce
  then show ?case using Cons by simp
qed

lemma map_opt_exists:
  assumes "\<And>x. x \<in> set xs \<Longrightarrow> f x \<noteq> None"
  shows "\<exists>ys. map_opt f xs = Some ys"
  using assms
proof (induction xs)
  case Nil
  then show ?case by simp
next
  case (Cons x xs)
  then obtain y where "f x = Some y" by fastforce
  moreover from Cons obtain ys where "map_opt f xs = Some ys" by fastforce
  ultimately show ?case by simp
qed

subsection \<open>The date filter in the generated query\<close>

lemma str_contains_prefix: "str_contains f (f @ b)"
proof (cases "f @ b")
  case Nil
  then show ?thesis by simp
next
  case (Cons a list)
  have "str_startswith (f @ b) f" by (simp add: str_startswith_def)
  then show ?thesis using Cons by (metis str_contains.simps(2))
qed

lemma str_contains_append: "str_contains f s \<Longrightarrow> str_contains f (a @ s)"
  by (induction a) simp_all

lemma query_filter_shape:
  assumes "generate_calculation_query
             (PDict [(''name'', PStr n), (''description'', PStr d), (''formula'', PStr fo),
                  (''unit'', PStr u), (''frequency'', PStr fr), (''entities'', PList (PStr e # es))])
             tp gb = Some sql"
    and "get_date_filter tp = Some f"
  shows "(u = ''currency'' \<and> str_contains ''pipeline'' (str_lower n) \<and> sql = pipeline_sql)
         \<or> str_contains f sql"
proof -
  let ?kpi = "PDict [(''name'', PStr n), (''description'', PStr d), (''formula'', PStr fo),
                  (''unit'', PStr u), (''frequency'', PStr fr), (''entities'', PList (PStr e # es))]"
  have fields: "getitem ?kpi ''unit'' = Some (PStr u)" "getstr ?kpi ''name'' = Some n"
    "getlist ?kpi ''entities'' = Some (PStr e # es)" "first_item (PStr e # es) = Some (PStr e)"
    "as_str (PStr e) = Some e" "as_str (PStr u) = Some u"
    by (simp_all add: getitem_def getstr_def getlist_def as_str_def as_list_def first_item_def)
  have "case generate_calculation_query ?kpi tp gb of None \<Rightarrow> False
        | Some sql \<Rightarrow> (u = ''currency'' \<and> str_contains ''pipeline'' (str_lower n) \<and> sql = pipeline_sql)
         \<or> str_contains f sql"
    unfolding generate_calculation_query_def pipeline_sql_def
    apply (simp only: fields assms(2) Option.bind.simps Let_def pyval.inject)
    apply (simp add: str_contains_prefix str_contains_append del: append.simps str_contains.simps)
    done
  with assms(1) show ?thesis by simp
qed

lemma kpi_library_category_cases:
  assumes "map_of CRM_KPI_LIBRARY category = Some kpis"
  shows "(category = ''sales'' \<and> kpis = sales_kpis) \<or>
         (category \<noteq> ''sales'' \<and> (kpis = marketing_kpis \<or> kpis = customer_service_kpis
         \<or> kpis = customer_health_kpis \<or> kpis = activity_metrics_kpis))"
  using assms by (auto simp: CRM_KPI_LIBRARY_def split: if_splits)

lemma pipeline_sales:
  "getitem sales_kpis m = Some (PDict [(''name'', PStr n), (''description'', PStr d), (''formula'', PStr fo),
      (''unit'', PStr ''currency''), (''frequency'', PStr fr), (''entities'', PList (PStr e # es))])
   \<Longrightarrow> str_contains ''pipeline'' (str_lower n) \<Longrightarrow> m = ''pipeline_value''"
  by (auto simp: getitem_def sales_kpis_def str_startswith_def str_lower_def lower_char_def is_upper_char_def split: if_splits)

lemma pipeline_marketing:
  "getitem marketing_kpis m = Some (PDict [(''name'', PStr n), (''description'', PStr d), (''formula'', PStr fo),
      (''unit'', PStr ''currency''), (''frequency'', PStr fr), (''entities'', PList (PStr e # es))])
   \<Longrightarrow> str_contains ''pipeline'' (str_lower n) \<Longrightarrow> False"
  by (auto simp: getitem_def marketing_kpis_def str_startswith_def str_lower_def lower_char_def is_upper_char_def split: if_splits)

lemma pipeline_customer_service:
  "getitem customer_service_kpis m = Some (PDict [(''name'', PStr n), (''description'', PStr d), (''formula'', PStr fo),
      (''unit'', PStr ''currency''), (''frequency'', PStr fr), (''entities'', PList (PStr e # es))])
   \<Longrightarrow> str_contains ''pipeline'' (str_lower n) \<Longrightarrow> False"
  by (auto simp: getitem_def customer_service_kpis_def str_startswith_def str_lower_def lower_char_def is_upper_char_def split: if_splits)

lemma pipeline_customer_health:
  "getitem customer_health_kpis m = Some (PDict [(''name'', PStr n), (''description'', PStr d), (''formula'', PStr fo),
      (''unit'', PStr ''currency''), (''frequency'', PStr fr), (''entities'', PList (PStr e # es))])
   \<Longrightarrow> str_contains ''pipeline'' (str_lower n) \<Longrightarrow> False"
  by (auto simp: getitem_def customer_health_kpis_def str_startswith_def str_lower_def lower_char_def is_upper_char_def split: if_splits)

lemma pipeline_activity_metrics:
  "getitem activity_metrics_kpis m = Some (PDict [(''name'', PStr n), (''description'', PStr d), (''formula'', PStr fo),
      (''unit'', PStr ''currency''), (''frequency'', PStr fr), (''entities'', PList (PStr e # es))])
   \<Longrightarrow> str_contains ''pipeline'' (str_lower n) \<Longrightarrow> False"
  by (auto simp: getitem_def activity_metrics_kpis_def str_startswith_def str_lower_def lower_char_def is_upper_char_def split: if_splits)

lemma pipeline_only:
  assumes "map_of CRM_KPI_LIBRARY category = Some kpis"
    and "getitem kpis m = Some (PDict [(''name'', PStr n), (''description'', PStr d), (''formula'', PStr fo),
      (''unit'', PStr ''currency''), (''frequency'', PStr fr), (''entities'', PList (PStr e # es))])"
    and "str_contains ''pipeline'' (str_lower n)"
  shows "category = ''sales'' \<and> m = ''pipeline_value''"
proof -
  from kpi_library_category_cases [OF assms(1)]
  consider (sales) "category = ''sales''" "kpis = sales_kpis" | (marketing) "kpis = marketing_kpis"
    | (customer_service) "kpis = customer_service_kpis" | (customer_health) "kpis = customer_health_kpis"
    | (activity_metrics) "kpis = activity_metrics_kpis"
    by blast
  then show ?thesis
  proof cases
    case sales
    from pipeline_sales [OF assms(2) [unfolded sales(2)] assms(3)] sales(1) show ?thesis by simp
  next
    case marketing
    from pipeline_marketing [OF assms(2) [unfolded marketing] assms(3)] show ?thesis ..
  next
    case customer_service
    from pipeline_customer_service [OF assms(2) [unfolded customer_service] assms(3)] show ?thesis ..
  next
    case customer_health
    from pipeline_customer_health [OF assms(2) [unfolded customer_health] assms(3)] show ?thesis ..
  next
    case activity_metrics
    from pipeline_activity_metrics [OF assms(2) [unfolded activity_metrics] assms(3)] show ?thesis ..
  qed
qed

lemma pipeline_value_query:
  "generate_calculation_query
     (PDict [(''name'', PStr ''Pipeline Value''), (''description'', PStr d), (''formula'', PStr fo),
      (''unit'', PStr ''currency''), (''frequency'', PStr fr), (''entities'', PList (PStr e # es))])
     ''last_month'' gb = Some pipeline_sql"
  by (simp add: generate_calculation_query_def get_date_filter_def date_filters_def getlist_def
      getstr_def getitem_def as_list_def as_str_def first_item_def Let_def pipeline_sql_def
      str_startswith_def str_lower_def lower_char_def is_upper_char_def)

lemma pipeline_sql_no_filter:
  "\<not> str_contains ''CreatedOn >= DATEADD(MONTH, -1, GETDATE())'' pipeline_sql"
  by (simp add: pipeline_sql_def str_startswith_def)

lemma split_sales_pipeline_value:
  "str_split ''sales.pipeline_value'' (CHR ''.'') = [''sales'', ''pipeline_value'']"
  by (simp add: str_split_def)

subsection \<open>Matching an entity name\<close>

lemma find_first_key:
  "distinct (map f ks) \<Longrightarrow> k \<in> set ks \<Longrightarrow> f k = v \<Longrightarrow> find (\<lambda>key. f key = v) ks = Some k"
  by (induction ks) (auto simp: image_iff)

lemma schema_keys_lower_distinct: "distinct (map str_lower (map fst CREATIO_SCHEMA_KNOWLEDGE))"
  unfolding schema_keys by (simp add: str_lower_def lower_char_def is_upper_char_def)

lemma match_entity_key:
  assumes "k \<in> set (map fst CREATIO_SCHEMA_KNOWLEDGE)" and "str_lower name = str_lower k"
  shows "match_entity name = Some k"
  unfolding match_entity_def
  by (rule find_first_key [OF schema_keys_lower_distinct assms(1)]) (simp add: assms(2))



section \<open>Routing of questions\<close>

lemma route_agent: "snd (route_question q) = spec_route q"
  by (simp add: route_question_def spec_route_def any_word_def schema_words_def query_words_def
      metrics_words_def Let_def)

lemma route_task: "fst (route_question q) = spec_task q"
  by (simp add: route_question_def spec_task_def spec_route_def any_word_def schema_words_def
      query_words_def metrics_words_def Let_def)

lemma ask_question_route:
  "ask_question kickoff q = kickoff [snd (route_question q)] [fst (route_question q)]"
  by (simp add: ask_question_def split: prod.splits)

lemma spec_task_agent: "task_agent (spec_task q) = spec_route q"
  by (cases "spec_route q") (simp_all add: spec_task_def task_agent_def)

lemma spec_task_question: "task_question (spec_task q) = q"
  by (cases "spec_route q") (simp_all add: spec_task_def task_question_def)

lemma spec_route_not_architect: "spec_route q \<noteq> data_architect"
  by (simp add: spec_route_def Let_def)

text \<open>
  Claim C5. \<open>ask_question\<close> hands every question to exactly one agent, chosen by
  substring tests on the lower-cased question: the schema analyst when a schema word
  occurs, otherwise the query builder when a query word occurs, otherwise the metrics
  expert when a metrics word occurs, otherwise the schema analyst. \<open>spec_route\<close> is this
  rule as the claim words it. The crew that \<open>ask_question\<close> starts has that agent as its
  only agent and one task as its only task; the task is assigned to that same agent and
  carries the question unchanged.
\<close>

theorem ask_question_routing:
  "snd (route_question question) = spec_route question \<and>
   (\<exists>task. ask_question kickoff question = kickoff [spec_route question] [task] \<and>
      task = fst (route_question question) \<and> task = spec_task question \<and>
      task_agent task = spec_route question \<and> task_question task = question) \<and>
   spec_route question \<in> {schema_analyst, query_builder, metrics_expert}"
proof -
  have "ask_question kickoff question = kickoff [spec_route question] [spec_task question]"
    by (simp only: ask_question_route route_agent route_task)
  moreover have "spec_route question \<in> {schema_analyst, query_builder, metrics_expert}"
    using spec_route_not_architect [of question] by (cases "spec_route question") simp_all
  ultimately show ?thesis
    using route_agent route_task spec_task_agent spec_task_question by auto
qed


section \<open>The column categories partition the analysed columns\<close>

lemma analyzed_columns_total:
  assumes "map_of CREATIO_SCHEMA_KNOWLEDGE k = Some info"
  shows "\<exists>columns. analyzed_columns k column_filter include_system_columns = Some columns
           \<and> list_all wf_col columns"
proof -
  from schema_wf [OF assms] obtain d t cols rels where
    info: "info = PDict [(''description'', PStr d), (''table_name'', PStr t),
                   (''key_columns'', PList cols), (''relationships'', PList rels)]"
    and cols: "list_all wf_col cols"
    by (rule wf_entity_fields)
  have kc: "getlist info ''key_columns'' = Some cols"
    unfolding info by (simp add: getlist_def getitem_def as_list_def)
  define p1 where "p1 = (\<lambda>c. do { n \<leftarrow> getitem c ''name'';
                                  Some (n \<notin> set (map PStr system_columns)) })"
  define cols1 where "cols1 = (if \<not> include_system_columns then filter (\<lambda>x. p1 x = Some True) cols else cols)"
  have wf1: "list_all wf_col cols1"
    using cols unfolding cols1_def by (auto simp: list_all_iff)
  have s1: "(if \<not> include_system_columns then filter_opt p1 cols else Some cols) = Some cols1"
  proof -
    have "filter_opt p1 cols = Some (filter (\<lambda>x. p1 x = Some True) cols)"
      by (rule filter_opt_some)
        (use cols in \<open>auto simp: p1_def list_all_iff wf_col_def getitem_def\<close>)
    then show ?thesis by (simp add: cols1_def)
  qed
  define p2 where "p2 = (\<lambda>f c. do { n \<leftarrow> getstr c ''name'';
                             Some (str_contains (str_lower f) (str_lower n)) })"
  have p2: "\<And>f x. x \<in> set cols1 \<Longrightarrow> p2 f x \<noteq> None"
    using wf1 unfolding p2_def by (auto simp: list_all_iff wf_col_def getitem_def getstr_def as_str_def)
  define cols2 where "cols2 =
     (case column_filter of None \<Rightarrow> cols1
      | Some f \<Rightarrow> if f = [] then cols1 else filter (\<lambda>x. p2 f x = Some True) cols1)"
  have wf2: "list_all wf_col cols2"
    using wf1 unfolding cols2_def by (auto simp: list_all_iff split: option.splits)
  have f2: "\<And>f. filter_opt (p2 f) cols1 = Some (filter (\<lambda>x. p2 f x = Some True) cols1)"
    by (rule filter_opt_some) (rule p2)
  have s2: "(if truthy column_filter then do { f \<leftarrow> column_filter; filter_opt (p2 f) cols1 }
             else Some cols1) = Some cols2"
    by (auto simp: truthy_def cols2_def f2 split: option.splits)
  have "analyzed_columns k column_filter include_system_columns = Some cols2"
    unfolding analyzed_columns_def
    by (simp add: assms kc s1 [unfolded p1_def] s2 [unfolded p2_def])
  with wf2 show ?thesis by blast
qed

text \<open>
  Claim C8. In \<open>ColumnAnalyzerTool._run\<close> the five lists under \<open>categorized\<close> partition the
  filtered column list, for every entity, \<open>column_filter\<close> and \<open>include_system_columns\<close>:
  together they hold the retained columns with their multiplicities, no column is in two
  of them, and their lengths add up to the reported \<open>total_columns\<close>.
\<close>

theorem column_categories_partition:
  assumes "match_entity entity_name = Some entity_key"
  shows "\<exists>columns pk fk lk dc dt.
      analyzed_columns entity_key column_filter include_system_columns = Some columns \<and>
      categorize columns =
        Some \<lparr>primary_key = pk, foreign_keys = fk, lookup_references = lk, data_columns = dc,
              datetime_columns = dt\<rparr> \<and>
      ColumnAnalyzerTool_result entity_name column_filter include_system_columns =
        Some (PDict [
          (''success'', PBool True),
          (''entity'', PStr entity_key),
          (''total_columns'', PInt (int (length columns))),
          (''columns'', PList columns),
          (''categorized'', PDict [
            (''primary_key'', PList pk),
            (''foreign_keys'', PList fk),
            (''lookup_references'', PList lk),
            (''data_columns'', PList dc),
            (''datetime_columns'', PList dt)]),
          (''analysis'', PDict [
            (''has_primary_key'', PBool (length pk > 0)),
            (''foreign_key_count'', PInt (int (length fk))),
            (''is_highly_relational'', PBool (length fk > 3))])]) \<and>
      mset pk + mset fk + mset lk + mset dc + mset dt = mset columns \<and>
      length pk + length fk + length lk + length dc + length dt = length columns \<and>
      set pk \<inter> set fk = {} \<and> set pk \<inter> set lk = {} \<and> set pk \<inter> set dc = {} \<and>
      set pk \<inter> set dt = {} \<and> set fk \<inter> set lk = {} \<and> set fk \<inter> set dc = {} \<and>
      set fk \<inter> set dt = {} \<and> set lk \<inter> set dc = {} \<and> set lk \<inter> set dt = {} \<and>
      set dc \<inter> set dt = {}"
proof -
  have key: "entity_key \<in> set (map fst CREATIO_SCHEMA_KNOWLEDGE)"
    by (rule match_entity_in_keys [OF assms])
  then obtain info where info: "map_of CREATIO_SCHEMA_KNOWLEDGE entity_key = Some info"
    using schema_key_info by blast
  obtain columns where cols: "analyzed_columns entity_key column_filter include_system_columns = Some columns"
    and wf: "list_all wf_col columns"
    using analyzed_columns_total [OF info] by blast
  let ?c = "\<lambda>i. filter (in_class i) columns"
  have cat: "categorize columns =
     Some \<lparr>primary_key = ?c 0, foreign_keys = ?c 1, lookup_references = ?c 2,
           data_columns = ?c 3, datetime_columns = ?c 4\<rparr>"
    by (rule categorize_total [OF wf])
  have cls: "\<And>c. c \<in> set columns \<Longrightarrow> \<exists>i<5. column_class c = Some i"
    using wf wf_col_class column_class_bound by (metis list_all_iff)
  have res: "ColumnAnalyzerTool_result entity_name column_filter include_system_columns =
        Some (PDict [
          (''success'', PBool True),
          (''entity'', PStr entity_key),
          (''total_columns'', PInt (int (length columns))),
          (''columns'', PList columns),
          (''categorized'', PDict [
            (''primary_key'', PList (?c 0)),
            (''foreign_keys'', PList (?c 1)),
            (''lookup_references'', PList (?c 2)),
            (''data_columns'', PList (?c 3)),
            (''datetime_columns'', PList (?c 4))]),
          (''analysis'', PDict [
            (''has_primary_key'', PBool (length (?c 0) > 0)),
            (''foreign_key_count'', PInt (int (length (?c 1)))),
            (''is_highly_relational'', PBool (length (?c 1) > 3))])])"
    unfolding ColumnAnalyzerTool_result_def
    using schema_keys_nonempty [OF key]
    by (simp add: assms truthy_def cols cat)
  have dis: "\<And>i j. i \<noteq> j \<Longrightarrow> set (?c i) \<inter> set (?c j) = {}"
    by (rule class_disjoint)
  show ?thesis
    apply (rule exI [of _ columns])
    apply (rule exI [of _ "?c 0"])
    apply (rule exI [of _ "?c 1"])
    apply (rule exI [of _ "?c 2"])
    apply (rule exI [of _ "?c 3"])
    apply (rule exI [of _ "?c 4"])
    using cols cat res class_partition_mset [OF cls] class_partition_length [OF cls]
      dis [of 0 1] dis [of 0 2] dis [of 0 3] dis [of 0 4] dis [of 1 2] dis [of 1 3] dis [of 1 4]
      dis [of 2 3] dis [of 2 4] dis [of 3 4]
    by simp
qed

lemma match_contact: "match_entity ''contact'' = Some ''Contact''"
  by (simp add: match_entity_def schema_keys str_lower_def lower_char_def is_upper_char_def)

theorem column_categories_partition_witness:
  "\<exists>columns pk fk lk dc dt.
      analyzed_columns ''Contact'' (Some ''id'') False = Some columns \<and>
      categorize columns =
        Some \<lparr>primary_key = pk, foreign_keys = fk, lookup_references = lk, data_columns = dc,
              datetime_columns = dt\<rparr> \<and>
      ColumnAnalyzerTool_result ''contact'' (Some ''id'') False =
        Some (PDict [
          (''success'', PBool True),
          (''entity'', PStr ''Contact''),
          (''total_columns'', PInt (int (length columns))),
          (''columns'', PList columns),
          (''categorized'', PDict [
            (''primary_key'', PList pk),
            (''foreign_keys'', PList fk),
            (''lookup_references'', PList lk),
            (''data_columns'', PList dc),
            (''datetime_columns'', PList dt)]),
          (''analysis'', PDict [
            (''has_primary_key'', PBool (length pk > 0)),
            (''foreign_key_count'', PInt (int (length fk))),
            (''is_highly_relational'', PBool (length fk > 3))])]) \<and>
      mset pk + mset fk + mset lk + mset dc + mset dt = mset columns \<and>
      length pk + length fk + length lk + length dc + length dt = length columns \<and>
      set pk \<inter> set fk = {} \<and> set pk \<inter> set lk = {} \<and> set pk \<inter> set dc = {} \<and>
      set pk \<inter> set dt = {} \<and> set fk \<inter> set lk = {} \<and> set fk \<inter> set dc = {} \<and>
      set fk \<inter> set dt = {} \<and> set lk \<inter> set dc = {} \<and> set lk \<inter> set dt = {} \<and>
      set dc \<inter> set dt = {}"
  by (rule column_categories_partition [OF match_contact])


section \<open>Relationship lines of the diagrams\<close>

lemma sorted_pair_eq: "sorted_pair a b = sorted_pair c d \<longleftrightarrow> {a, b} = {c, d}"
  by (auto simp: sorted_pair_def doubleton_eq_iff split: if_splits)

lemma rel_key_endpoints: "rel_key r = rel_key r' \<longleftrightarrow> endpoints r = endpoints r'"
  by (cases r, cases r') (simp add: rel_key_def endpoints_def sorted_pair_eq)

lemma distinct_endpoints: "distinct (map rel_key rs) \<longleftrightarrow> distinct (map endpoints rs)"
proof (induction rs)
  case Nil
  then show ?case by simp
next
  case (Cons r rs)
  have "rel_key r \<in> rel_key ` set rs \<longleftrightarrow> endpoints r \<in> endpoints ` set rs"
    using rel_key_endpoints by (auto simp: image_iff)
  with Cons show ?case by simp
qed

lemma rendered_append: "rendered render (xs @ ys) = rendered render xs @ rendered render ys"
  by (simp add: rendered_def)

lemma erd_rel_step_inv:
  assumes "erd_inv render entities lines0 st" and "entity \<in> set entities"
    and "erd_rel_step render entities entity rel st = Some st'"
  shows "erd_inv render entities lines0 st'"
proof -
  obtain added ls where st: "st = (added, ls)" by (cases st)
  from assms(1) obtain emitted where e: "ls = lines0 @ rendered render emitted"
    "distinct (map rel_key emitted)" "rel_key ` set emitted \<subseteq> added"
    "\<forall>r \<in> set emitted. endpoints r \<subseteq> set entities"
    unfolding erd_inv_def st by auto
  from assms(3) obtain target where t: "getstr rel ''entity'' = Some target"
    unfolding erd_rel_step_def st by (auto split: Option.bind_splits)
  show ?thesis
  proof (cases "target \<notin> set entities \<or> sorted_pair entity target \<in> added")
    case True
    then have "st' = st"
      using assms(3) unfolding erd_rel_step_def st Let_def by (auto simp: t split: if_splits)
    then show ?thesis using assms(1) by simp
  next
    case False
    then obtain rel_type where ty: "getitem rel ''type'' = Some rel_type"
      and st': "st' = (insert (sorted_pair entity target) added, ls @ render entity target rel_type)"
      using assms(3) unfolding erd_rel_step_def st Let_def
      by (auto simp: t split: Option.bind_splits if_splits)
    let ?r = "(entity, target, rel_type)"
    have k: "rel_key ?r = sorted_pair entity target" by (simp add: rel_key_def)
    have "snd st' = lines0 @ rendered render (emitted @ [?r])"
      by (simp add: st' e(1) rendered_append) (simp add: rendered_def)
    moreover have "distinct (map rel_key (emitted @ [?r]))"
      using e(2,3) False k by auto
    moreover have "rel_key ` set (emitted @ [?r]) \<subseteq> fst st'"
      using e(3) k by (auto simp: st')
    moreover have "\<forall>r \<in> set (emitted @ [?r]). endpoints r \<subseteq> set entities"
      using e(4) False assms(2) by (auto simp: endpoints_def)
    ultimately show ?thesis unfolding erd_inv_def by blast
  qed
qed

lemma erd_entity_rels_inv:
  assumes "erd_inv render entities lines0 st" and "entity \<in> set entities"
    and "erd_entity_rels render entities entity st = Some st'"
  shows "erd_inv render entities lines0 st'"
proof -
  from assms(3) obtain rels where
    f: "fold_opt (erd_rel_step render entities entity) rels st = Some st'"
    unfolding erd_entity_rels_def by (auto split: Option.bind_splits)
  show ?thesis
    by (rule fold_opt_invariant [OF f, where I = "erd_inv render entities lines0"])
      (use assms(1,2) erd_rel_step_inv in blast)+
qed

lemma erd_relationships_inv:
  assumes "erd_relationships render entities lines0 = Some st'"
  shows "erd_inv render entities lines0 st'"
proof -
  have i0: "erd_inv render entities lines0 ({}, lines0)"
    unfolding erd_inv_def by (rule exI [of _ "[]"]) (simp add: rendered_def)
  show ?thesis
    by (rule fold_opt_invariant [OF assms [unfolded erd_relationships_def],
          where I = "erd_inv render entities lines0"])
      (use i0 erd_entity_rels_inv in blast)+
qed

lemma erd_rel_step_total:
  assumes "wf_rel rel"
  shows "erd_rel_step render entities entity rel st \<noteq> None"
  using assms unfolding wf_rel_def erd_rel_step_def
  by (cases st) (auto simp: getstr_def getitem_def as_str_def Let_def)

lemma erd_entity_rels_total:
  assumes "entity \<in> set (map fst CREATIO_SCHEMA_KNOWLEDGE)"
  shows "erd_entity_rels render entities entity st \<noteq> None"
proof -
  from schema_key_info [OF assms] obtain info where
    info: "map_of CREATIO_SCHEMA_KNOWLEDGE entity = Some info" and wf: "wf_entity info" by blast
  from wf obtain d t cols rels where
    shape: "info = PDict [(''description'', PStr d), (''table_name'', PStr t),
                   (''key_columns'', PList cols), (''relationships'', PList rels)]"
    and rels: "list_all wf_rel rels"
    by (rule wf_entity_fields)
  have "fold_opt (erd_rel_step render entities entity) rels st \<noteq> None"
    by (rule fold_opt_total, rule erd_rel_step_total) (use rels in \<open>auto simp: list_all_iff\<close>)
  then show ?thesis
    unfolding erd_entity_rels_def by (simp add: info shape dict_get_def as_list_def)
qed

lemma erd_relationships_total:
  assumes "set entities \<subseteq> set (map fst CREATIO_SCHEMA_KNOWLEDGE)"
  shows "erd_relationships render entities lines0 \<noteq> None"
  unfolding erd_relationships_def
  by (rule fold_opt_total, rule erd_entity_rels_total) (use assms in auto)

lemma erd_relationships_emitted:
  assumes "set entities \<subseteq> set (map fst CREATIO_SCHEMA_KNOWLEDGE)"
  shows "\<exists>added emitted.
           erd_relationships render entities lines0 = Some (added, lines0 @ rendered render emitted) \<and>
           distinct (map endpoints emitted) \<and> (\<forall>r \<in> set emitted. endpoints r \<subseteq> set entities)"
proof -
  from erd_relationships_total [OF assms] obtain st where
    st: "erd_relationships render entities lines0 = Some st" by blast
  from erd_relationships_inv [OF st] obtain emitted where
    "snd st = lines0 @ rendered render emitted" "distinct (map rel_key emitted)"
    "\<forall>r \<in> set emitted. endpoints r \<subseteq> set entities"
    unfolding erd_inv_def by blast
  then show ?thesis
    using st distinct_endpoints by (cases st) auto
qed

lemma parse_entities_keys: "set (parse_entities requested) \<subseteq> set (map fst CREATIO_SCHEMA_KNOWLEDGE)"
proof
  fix k assume "k \<in> set (parse_entities requested)"
  then obtain name where "match_entity name = Some k"
    unfolding parse_entities_def Let_def List.map_filter_def by (auto split: if_splits)
  then show "k \<in> set (map fst CREATIO_SCHEMA_KNOWLEDGE)" by (rule match_entity_in_keys)
qed

lemma mermaid_column_total: "wf_col col \<Longrightarrow> mermaid_column col \<noteq> None"
  unfolding wf_col_def mermaid_column_def
  by (auto simp: getstr_def getitem_def as_str_def Let_def)

lemma plantuml_column_total: "wf_col col \<Longrightarrow> plantuml_column col \<noteq> None"
  unfolding wf_col_def plantuml_column_def
  by (auto simp: getstr_def getitem_def as_str_def Let_def)

lemma mermaid_entity_total:
  assumes "entity \<in> set (map fst CREATIO_SCHEMA_KNOWLEDGE)"
  shows "mermaid_entity show_columns entity \<noteq> None"
proof -
  from schema_key_info [OF assms] obtain info where
    info: "map_of CREATIO_SCHEMA_KNOWLEDGE entity = Some info" and wf: "wf_entity info" by blast
  from wf obtain d t cols rels where
    shape: "info = PDict [(''description'', PStr d), (''table_name'', PStr t),
                   (''key_columns'', PList cols), (''relationships'', PList rels)]"
    and cols: "list_all wf_col cols"
    by (rule wf_entity_fields)
  have mc: "\<And>c. c \<in> set (slice_to cols 8) \<Longrightarrow> mermaid_column c \<noteq> None"
    using cols mermaid_column_total
    by (auto simp: slice_to_def list_all_iff dest: in_set_takeD)
  have "\<exists>ys. map_opt mermaid_column (slice_to cols 8) = Some ys"
    by (rule map_opt_exists) (rule mc)
  then show ?thesis
    unfolding mermaid_entity_def by (auto simp: info shape getlist_def getitem_def as_list_def)
qed

lemma plantuml_entity_total:
  assumes "entity \<in> set (map fst CREATIO_SCHEMA_KNOWLEDGE)"
  shows "plantuml_entity show_columns entity \<noteq> None"
proof -
  from schema_key_info [OF assms] obtain info where
    info: "map_of CREATIO_SCHEMA_KNOWLEDGE entity = Some info" and wf: "wf_entity info" by blast
  from wf obtain d t cols rels where
    shape: "info = PDict [(''description'', PStr d), (''table_name'', PStr t),
                   (''key_columns'', PList cols), (''relationships'', PList rels)]"
    and cols: "list_all wf_col cols"
    by (rule wf_entity_fields)
  have pc: "\<And>c. c \<in> set (py_slice cols 1 6) \<Longrightarrow> plantuml_column c \<noteq> None"
    using cols plantuml_column_total
    by (auto simp: py_slice_def Let_def list_all_iff dest!: in_set_dropD in_set_takeD)
  have "\<exists>ys. map_opt plantuml_column (py_slice cols 1 6) = Some ys"
    by (rule map_opt_exists) (rule pc)
  then show ?thesis
    unfolding plantuml_entity_def by (auto simp: info shape getlist_def getitem_def as_list_def)
qed

text \<open>
  Claim C9. In the Mermaid and PlantUML output of \<open>ERDGeneratorTool\<close>, for every requested
  entity list, each unordered pair of entities contributes at most one relationship line,
  and no relationship line names an entity outside the list. \<open>emitted\<close> lists the
  relationships \<open>(entity, target, type)\<close> for which the loop appends to \<open>lines\<close>;
  \<open>endpoints\<close> is the unordered pair of a relationship. A relationship gives no line or
  one line, and that line names its own \<open>entity\<close> and \<open>target\<close> and nothing else.
\<close>

theorem erd_relationship_lines:
  "(\<exists>entity_lines emitted.
      map_opt (mermaid_entity show_columns) (parse_entities requested) = Some entity_lines \<and>
      generate_mermaid (parse_entities requested) show_columns =
        Some (str_join NL ([''erDiagram''] @ concat entity_lines @ rendered mermaid_rel_line emitted)) \<and>
      distinct (map endpoints emitted) \<and>
      (\<forall>r \<in> set emitted. endpoints r \<subseteq> set (parse_entities requested))) \<and>
   (\<exists>entity_lines emitted.
      map_opt (plantuml_entity show_columns) (parse_entities requested) = Some entity_lines \<and>
      generate_plantuml (parse_entities requested) show_columns =
        Some (str_join NL (plantuml_head @ concat entity_lines @ [[]]
                @ rendered plantuml_rel_line emitted @ [[], ''@enduml''])) \<and>
      distinct (map endpoints emitted) \<and>
      (\<forall>r \<in> set emitted. endpoints r \<subseteq> set (parse_entities requested))) \<and>
   (\<forall>entity target rel_type.
      mermaid_rel_line entity target rel_type \<in>
        {[], [''    '' @ entity @ '' ||--o{ '' @ target @ '' : has''],
         [''    '' @ entity @ '' }o--|| '' @ target @ '' : belongs_to''],
         [''    '' @ entity @ '' }o--o{ '' @ target @ '' : relates''],
         [''    '' @ entity @ '' ||--|| '' @ target @ '' : is'']} \<and>
      plantuml_rel_line entity target rel_type \<in>
        {[], [entity @ '' ||--o{ '' @ target], [entity @ '' }o--|| '' @ target],
         [entity @ '' }o--o{ '' @ target], [entity @ '' ||--|| '' @ target]})"
proof -
  let ?es = "parse_entities requested"
  have keys: "set ?es \<subseteq> set (map fst CREATIO_SCHEMA_KNOWLEDGE)" by (rule parse_entities_keys)
  have mermaid: "\<exists>entity_lines emitted.
      map_opt (mermaid_entity show_columns) ?es = Some entity_lines \<and>
      generate_mermaid ?es show_columns =
        Some (str_join NL ([''erDiagram''] @ concat entity_lines @ rendered mermaid_rel_line emitted)) \<and>
      distinct (map endpoints emitted) \<and> (\<forall>r \<in> set emitted. endpoints r \<subseteq> set ?es)"
  proof -
    have me: "\<And>e. e \<in> set ?es \<Longrightarrow> mermaid_entity show_columns e \<noteq> None"
      using keys mermaid_entity_total by blast
    have "\<exists>ys. map_opt (mermaid_entity show_columns) ?es = Some ys"
      by (rule map_opt_exists) (rule me)
    then obtain entity_lines where
      el: "map_opt (mermaid_entity show_columns) ?es = Some entity_lines" by blast
    from erd_relationships_emitted [OF keys, of mermaid_rel_line "[''erDiagram''] @ concat entity_lines"]
    obtain added emitted where
      r: "erd_relationships mermaid_rel_line ?es ([''erDiagram''] @ concat entity_lines) =
            Some (added, ([''erDiagram''] @ concat entity_lines) @ rendered mermaid_rel_line emitted)"
      and d: "distinct (map endpoints emitted)"
      and i: "\<forall>r \<in> set emitted. endpoints r \<subseteq> set ?es"
      by blast
    have "generate_mermaid ?es show_columns =
         Some (str_join NL ([''erDiagram''] @ concat entity_lines @ rendered mermaid_rel_line emitted))"
      unfolding generate_mermaid_def using r by (simp add: el)
    with el d i show ?thesis by blast
  qed
  have plantuml: "\<exists>entity_lines emitted.
      map_opt (plantuml_entity show_columns) ?es = Some entity_lines \<and>
      generate_plantuml ?es show_columns =
        Some (str_join NL (plantuml_head @ concat entity_lines @ [[]]
                @ rendered plantuml_rel_line emitted @ [[], ''@enduml''])) \<and>
      distinct (map endpoints emitted) \<and> (\<forall>r \<in> set emitted. endpoints r \<subseteq> set ?es)"
  proof -
    have pe: "\<And>e. e \<in> set ?es \<Longrightarrow> plantuml_entity show_columns e \<noteq> None"
      using keys plantuml_entity_total by blast
    have "\<exists>ys. map_opt (plantuml_entity show_columns) ?es = Some ys"
      by (rule map_opt_exists) (rule pe)
    then obtain entity_lines where
      el: "map_opt (plantuml_entity show_columns) ?es = Some entity_lines" by blast
    from erd_relationships_emitted [OF keys, of plantuml_rel_line "plantuml_head @ concat entity_lines @ [[]]"]
    obtain added emitted where
      r: "erd_relationships plantuml_rel_line ?es (plantuml_head @ concat entity_lines @ [[]]) =
            Some (added, (plantuml_head @ concat entity_lines @ [[]]) @ rendered plantuml_rel_line emitted)"
      and d: "distinct (map endpoints emitted)"
      and i: "\<forall>r \<in> set emitted. endpoints r \<subseteq> set ?es"
      by blast
    have "generate_plantuml ?es show_columns =
         Some (str_join NL (plantuml_head @ concat entity_lines @ [[]]
                @ rendered plantuml_rel_line emitted @ [[], ''@enduml'']))"
      unfolding generate_plantuml_def using r by (simp add: el plantuml_head_def)
    with el d i show ?thesis by blast
  qed
  have "\<forall>entity target rel_type.
      mermaid_rel_line entity target rel_type \<in>
        {[], [''    '' @ entity @ '' ||--o{ '' @ target @ '' : has''],
         [''    '' @ entity @ '' }o--|| '' @ target @ '' : belongs_to''],
         [''    '' @ entity @ '' }o--o{ '' @ target @ '' : relates''],
         [''    '' @ entity @ '' ||--|| '' @ target @ '' : is'']} \<and>
      plantuml_rel_line entity target rel_type \<in>
        {[], [entity @ '' ||--o{ '' @ target], [entity @ '' }o--|| '' @ target],
         [entity @ '' }o--o{ '' @ target], [entity @ '' ||--|| '' @ target]}"
    unfolding mermaid_rel_line_def plantuml_rel_line_def by simp
  with mermaid plantuml show ?thesis by blast
qed

lemma parse_contact_account: "parse_entities ''Contact, Account'' = [''Contact'', ''Account'']"
  by (simp add: parse_entities_def str_split_def str_strip_def is_space_def match_entity_def schema_keys
      List.map_filter_def str_lower_def lower_char_def is_upper_char_def)

lemma mermaid_contact_account:
  "generate_mermaid [''Contact'', ''Account''] False =
     Some (''erDiagram'' @ NL @ ''    Contact'' @ NL @ ''    Account'' @ NL @
           ''    Contact }o--|| Account : belongs_to'')"
  unfolding generate_mermaid_def erd_relationships_def
  apply (simp add: mermaid_entity_def CREATIO_SCHEMA_KNOWLEDGE_def)
  apply (simp add: erd_entity_rels_def CREATIO_SCHEMA_KNOWLEDGE_def Contact_info_def Account_info_def
      dict_get_def as_list_def erd_rel_step_def getstr_def getitem_def as_str_def sorted_pair_def
      mermaid_rel_line_def less_char_def Let_def)
  done

theorem erd_relationship_lines_witness:
  "generate_mermaid (parse_entities ''Contact, Account'') False =
     Some (''erDiagram'' @ NL @ ''    Contact'' @ NL @ ''    Account'' @ NL @
           ''    Contact }o--|| Account : belongs_to'') \<and>
   (\<exists>entity_lines emitted.
      map_opt (mermaid_entity False) (parse_entities ''Contact, Account'') = Some entity_lines \<and>
      generate_mermaid (parse_entities ''Contact, Account'') False =
        Some (str_join NL ([''erDiagram''] @ concat entity_lines @ rendered mermaid_rel_line emitted)) \<and>
      distinct (map endpoints emitted) \<and>
      (\<forall>r \<in> set emitted. endpoints r \<subseteq> set (parse_entities ''Contact, Account'')))"
  using erd_relationship_lines [of False "''Contact, Account''"] mermaid_contact_account
  unfolding parse_contact_account by blast

section \<open>An unknown time period\<close>

text \<open>
  Claim C10, as worded, fails at \<open>sales.pipeline_value\<close>. With the unknown period
  \<open>next_decade\<close> the result has \<open>success\<close> true and the \<open>date_filter\<close> field holds the
  \<open>last_month\<close> filter, but the generated \<open>sql_query\<close> is the fixed pipeline query, in which
  that filter does not occur: the template of this branch has no date filter.
\<close>

theorem pipeline_value_query_has_no_date_filter:
  "field_of (MetricCalculatorTool_result ''sales.pipeline_value'' ''next_decade'' None) ''success''
     = Some (PBool True) \<and>
   field_of (field_of (MetricCalculatorTool_result ''sales.pipeline_value'' ''next_decade'' None)
               ''calculation'') ''date_filter''
     = Some (PStr ''CreatedOn >= DATEADD(MONTH, -1, GETDATE())'') \<and>
   field_of (field_of (MetricCalculatorTool_result ''sales.pipeline_value'' ''next_decade'' None)
               ''calculation'') ''sql_query''
     = Some (PStr (NL @ ''SELECT SUM(o.Amount) AS PipelineValue'' @ NL @
                   ''FROM [Opportunity] o'' @ NL @
                   ''JOIN [OpportunityStage] s ON o.StageId = s.Id'' @ NL @
                   ''WHERE s.IsFinal = 0'' @ NL)) \<and>
   \<not> str_contains ''CreatedOn >= DATEADD(MONTH, -1, GETDATE())''
        (NL @ ''SELECT SUM(o.Amount) AS PipelineValue'' @ NL @
         ''FROM [Opportunity] o'' @ NL @
         ''JOIN [OpportunityStage] s ON o.StageId = s.Id'' @ NL @
         ''WHERE s.IsFinal = 0'' @ NL)"
proof -
  have r: "MetricCalculatorTool_result ''sales.pipeline_value'' ''next_decade'' None = 
    Some (PDict [
               (''success'', PBool True),
               (''metric'', PDict [
                 (''id'', PStr ''sales.pipeline_value''),
                 (''name'', PStr ''Pipeline Value''),
                 (''description'', PStr ''Total value of open opportunities in the sales pipeline''),
                 (''unit'', PStr ''currency'')]),
               (''calculation'', PDict [
                 (''formula'', PStr ''SUM(Opportunity.Amount) WHERE Opportunity.Stage.IsFinal = 0''),
                 (''sql_query'', PStr pipeline_sql),
                 (''time_period'', PStr ''next_decade''),
                 (''date_filter'', PStr ''CreatedOn >= DATEADD(MONTH, -1, GETDATE())''),
                 (''group_by'', PNone)]),
               (''entities_required'', PList [PStr ''Opportunity'', PStr ''OpportunityStage'']),
               (''notes'', PList [
                 PStr (''Recommended calculation frequency: daily''),
                 PStr ''Ensure appropriate indexes exist for date columns'',
                 PStr ''Consider caching results for dashboard performance''])])"
    unfolding MetricCalculatorTool_result_def split_sales_pipeline_value
    apply (simp add: CRM_KPI_LIBRARY_def as_dict_def)
    apply (simp add: sales_kpis_def)
    apply (simp add: generate_calculation_query_def get_date_filter_def date_filters_def getlist_def
      getstr_def getitem_def as_list_def as_str_def first_item_def Let_def pipeline_sql_def
      str_startswith_def opt_val_def str_lower_def lower_char_def is_upper_char_def)
    done
  show ?thesis
    unfolding r using pipeline_sql_no_filter
    by (simp add: field_of_def getitem_def pipeline_sql_def)
qed

text \<open>
  Claim C10, amended. \<open>MetricCalculatorTool._run\<close> never reports an error for an unknown
  \<open>time_period\<close>: for a metric id \<open>category.metric\<close> of the library and a period outside
  \<open>today\<close>, \<open>last_week\<close>, \<open>last_month\<close>, \<open>last_quarter\<close>, \<open>ytd\<close>, \<open>last_year\<close>, the result
  has \<open>success\<close> true, carries the period as given, its \<open>date_filter\<close> field is the
  \<open>last_month\<close> filter and its \<open>sql_query\<close> is the query generated for \<open>last_month\<close>. For
  every metric other than \<open>sales.pipeline_value\<close> the text of the \<open>last_month\<close> filter occurs
  in that query; for \<open>sales.pipeline_value\<close> the query is the fixed pipeline query, in
  which it does not occur.
\<close>

theorem unknown_time_period_filter_in_sql:
  assumes "str_split metric_id (CHR ''.'') = [category, metric_name]"
    and "map_of CRM_KPI_LIBRARY category = Some kpis"
    and "getitem kpis metric_name = Some kpi"
    and "time_period \<notin> {''today'', ''last_week'', ''last_month'', ''last_quarter'', ''ytd'', ''last_year''}"
  shows "\<exists>r calculation sql.
           MetricCalculatorTool_result metric_id time_period group_by = Some r \<and>
           getitem r ''success'' = Some (PBool True) \<and>
           getitem r ''calculation'' = Some calculation \<and>
           getitem calculation ''time_period'' = Some (PStr time_period) \<and>
           getitem calculation ''date_filter'' = Some (PStr ''CreatedOn >= DATEADD(MONTH, -1, GETDATE())'') \<and>
           get_date_filter ''last_month'' = Some ''CreatedOn >= DATEADD(MONTH, -1, GETDATE())'' \<and>
           generate_calculation_query kpi ''last_month'' group_by = Some sql \<and>
           getitem calculation ''sql_query'' = Some (PStr sql) \<and>
           (if category = ''sales'' \<and> metric_name = ''pipeline_value''
            then sql = pipeline_sql \<and> \<not> str_contains ''CreatedOn >= DATEADD(MONTH, -1, GETDATE())'' sql
            else str_contains ''CreatedOn >= DATEADD(MONTH, -1, GETDATE())'' sql)"
proof -
  have f: "get_date_filter time_period = Some ''CreatedOn >= DATEADD(MONTH, -1, GETDATE())''"
    by (rule get_date_filter_unknown [OF assms(4)])
  have q: "generate_calculation_query kpi time_period group_by =
           generate_calculation_query kpi ''last_month'' group_by"
    by (rule query_depends_on_filter) (simp only: f get_date_filter_last_month)
  from calculator_known_metric [OF assms(1,2,3) f, of group_by] obtain sql r calculation where
    sql: "generate_calculation_query kpi time_period group_by = Some sql"
    and r: "MetricCalculatorTool_result metric_id time_period group_by = Some r"
      "getitem r ''success'' = Some (PBool True)"
      "getitem r ''calculation'' = Some calculation"
      "getitem calculation ''time_period'' = Some (PStr time_period)"
      "getitem calculation ''date_filter'' = Some (PStr ''CreatedOn >= DATEADD(MONTH, -1, GETDATE())'')"
      "getitem calculation ''sql_query'' = Some (PStr sql)"
    by (auto simp: getitem_def)
  from kpi_wf [OF assms(2,3)] obtain n d fo u fr e es where
    kpi: "kpi = PDict [(''name'', PStr n), (''description'', PStr d), (''formula'', PStr fo),
                  (''unit'', PStr u), (''frequency'', PStr fr), (''entities'', PList (PStr e # es))]"
    unfolding wf_kpi_def by blast
  have shape: "(u = ''currency'' \<and> str_contains ''pipeline'' (str_lower n) \<and> sql = pipeline_sql)
         \<or> str_contains ''CreatedOn >= DATEADD(MONTH, -1, GETDATE())'' sql"
    by (rule query_filter_shape [OF sql [unfolded kpi] f])
  have tail: "if category = ''sales'' \<and> metric_name = ''pipeline_value''
            then sql = pipeline_sql \<and> \<not> str_contains ''CreatedOn >= DATEADD(MONTH, -1, GETDATE())'' sql
            else str_contains ''CreatedOn >= DATEADD(MONTH, -1, GETDATE())'' sql"
  proof (cases "category = ''sales'' \<and> metric_name = ''pipeline_value''")
    case True
    from assms(2) True have "kpis = sales_kpis"
      by (simp add: CRM_KPI_LIBRARY_def)
    with assms(3) True have "n = ''Pipeline Value''" "u = ''currency''"
      unfolding kpi by (simp_all add: sales_kpis_def getitem_def)
    with pipeline_value_query [of d fo fr e es group_by] sql q have "sql = pipeline_sql"
      unfolding kpi by simp
    with pipeline_sql_no_filter True show ?thesis by simp
  next
    case False
    have "\<not> (u = ''currency'' \<and> str_contains ''pipeline'' (str_lower n))"
    proof
      assume a: "u = ''currency'' \<and> str_contains ''pipeline'' (str_lower n)"
      from a have "category = ''sales'' \<and> metric_name = ''pipeline_value''"
        using pipeline_only [OF assms(2), of metric_name n d fo fr e es] assms(3) unfolding kpi
        by simp
      with False show False ..
    qed
    with shape False show ?thesis by auto
  qed
  from r sql q get_date_filter_last_month tail show ?thesis
    by (intro exI [of _ r] exI [of _ calculation] exI [of _ sql]) simp
qed

lemma split_sales_win_rate: "str_split ''sales.win_rate'' (CHR ''.'') = [''sales'', ''win_rate'']"
  by (simp add: str_split_def)

theorem unknown_time_period_filter_in_sql_witness:
  "\<exists>r calculation sql.
     MetricCalculatorTool_result ''sales.win_rate'' ''next_decade'' None = Some r \<and>
     getitem r ''success'' = Some (PBool True) \<and>
     getitem r ''calculation'' = Some calculation \<and>
     getitem calculation ''time_period'' = Some (PStr ''next_decade'') \<and>
     getitem calculation ''date_filter'' = Some (PStr ''CreatedOn >= DATEADD(MONTH, -1, GETDATE())'') \<and>
     get_date_filter ''last_month'' = Some ''CreatedOn >= DATEADD(MONTH, -1, GETDATE())'' \<and>
     generate_calculation_query
       (PDict [(''name'', PStr ''Win Rate''),
               (''description'', PStr ''Percentage of opportunities closed as won''),
               (''formula'', PStr ''(COUNT(Won Opportunities) / COUNT(All Closed Opportunities)) * 100''),
               (''unit'', PStr ''percentage''), (''frequency'', PStr ''monthly''),
               (''entities'', PList [PStr ''Opportunity'', PStr ''OpportunityStage''])])
       ''last_month'' None = Some sql \<and>
     getitem calculation ''sql_query'' = Some (PStr sql) \<and>
     (if ''sales'' = ''sales'' \<and> ''win_rate'' = ''pipeline_value''
      then sql = pipeline_sql \<and> \<not> str_contains ''CreatedOn >= DATEADD(MONTH, -1, GETDATE())'' sql
      else str_contains ''CreatedOn >= DATEADD(MONTH, -1, GETDATE())'' sql)"
proof -
  have c: "map_of CRM_KPI_LIBRARY ''sales'' = Some sales_kpis"
    by (simp add: CRM_KPI_LIBRARY_def)
  have k: "getitem sales_kpis ''win_rate'' =
     Some (PDict [(''name'', PStr ''Win Rate''),
               (''description'', PStr ''Percentage of opportunities closed as won''),
               (''formula'', PStr ''(COUNT(Won Opportunities) / COUNT(All Closed Opportunities)) * 100''),
               (''unit'', PStr ''percentage''), (''frequency'', PStr ''monthly''),
               (''entities'', PList [PStr ''Opportunity'', PStr ''OpportunityStage''])])"
    by (simp add: sales_kpis_def getitem_def)
  have t: "''next_decade'' \<notin> {''today'', ''last_week'', ''last_month'', ''last_quarter'', ''ytd'', ''last_year''}"
    by simp
  show ?thesis
    by (rule unknown_time_period_filter_in_sql [OF split_sales_win_rate c k t])
qed

section \<open>Determinism of the tools\<close>




section \<open>An empty entity name in \<open>SQLQueryBuilderTool._run\<close>\<close>

text \<open>
  Claim C4 says that no tool raises, and names \<open>SQLQueryBuilderTool._run\<close> with an empty
  \<open>entities\<close> string. There the code raises: \<open>"".split(",")\<close> is \<open>[""]\<close>, so the primary
  entity is the empty string, and the default argument \<open>primary[0].lower()\<close> of
  \<open>aliases.get\<close> in \<open>_build_from\<close> (and of \<open>default_cols.get\<close> in \<open>_build_select\<close>) is
  evaluated before the lookup: \<open>IndexError\<close>. The same happens for an empty later entity,
  as in \<open>"Contact,"\<close>. \<open>None\<close> is the raised exception.
\<close>

theorem sql_builder_raises_on_empty_entity:
  "SQLQueryBuilderTool_run objective [] filters aggregations grouping order_by = None \<and>
   SQLQueryBuilderTool_run objective '','' filters aggregations grouping order_by = None \<and>
   SQLQueryBuilderTool_run objective ''Contact,'' filters aggregations grouping order_by = None \<and>
   SQLQueryBuilderTool_run ''List contacts'' [] None None None None = None"
proof -
  have e: "str_split [] (CHR '','') = [[]]" "str_split '','' (CHR '','') = [[], []]"
    "str_split ''Contact,'' (CHR '','') = [''Contact'', []]"
    by (simp_all add: str_split_def)
  have s: "str_strip [] = []" "str_strip ''Contact'' = ''Contact''"
    by (simp_all add: str_strip_def is_space_def)
  have f1: "build_from [[]] = None" "build_from [[], []] = None"
    by (simp_all add: build_from_def first_item_def first_lower_def)
  have f2: "build_from [''Contact'', []] = None"
    by (simp add: build_from_def first_item_def first_lower_def aliases_def slice_from_def
        py_slice_def slice_bound_def join_step_def join_templates_def str_lower_def lower_char_def
        is_upper_char_def)
  show ?thesis
    unfolding SQLQueryBuilderTool_run_def SQLQueryBuilderTool_result_def e
    by (simp add: s f1 f2 first_item_def Let_def split: Option.bind_split)
qed

section \<open>Settings and the tools of the Creatio crew\<close>


section \<open>Lookups by key\<close>

text \<open>
  Claim C1, as worded, fails for the two metric tools: they look a category up with
  \<open>in CRM_KPI_LIBRARY\<close>, which compares exactly. \<open>SALES\<close> equals the stored key \<open>sales\<close> up to
  letter case, yet \<open>MetricCalculatorTool._run\<close> answers \<open>Unknown category\<close> and
  \<open>KPILibraryTool._run\<close> lists no metric.
\<close>

theorem metric_lookups_are_case_sensitive:
  "str_lower ''SALES'' = str_lower ''sales'' \<and>
   MetricCalculatorTool_result ''SALES.win_rate'' ''last_month'' None =
     Some (PDict [
       (''success'', PBool False),
       (''error'', PStr ''Unknown category: SALES''),
       (''available_categories'',
          PList [PStr ''sales'', PStr ''marketing'', PStr ''customer_service'',
                 PStr ''customer_health'', PStr ''activity_metrics''])]) \<and>
   KPILibraryTool_result (Some ''SALES'') None =
     Some (PDict [
       (''success'', PBool True),
       (''filter'', PDict [(''category'', PStr ''SALES''), (''search_term'', PNone)]),
       (''kpis'', PList []),
       (''summary'', PDict [
         (''total_kpis_found'', PInt 0),
         (''categories_searched'', PList [PStr ''SALES'']),
         (''available_categories'',
            PList [PStr ''sales'', PStr ''marketing'', PStr ''customer_service'',
                   PStr ''customer_health'', PStr ''activity_metrics''])])])"
proof -
  have s: "str_split ''SALES.win_rate'' (CHR ''.'') = [''SALES'', ''win_rate'']"
    by (simp add: str_split_def)
  have n: "map_of CRM_KPI_LIBRARY ''SALES'' = None"
    by (simp add: CRM_KPI_LIBRARY_def)
  have l: "str_lower ''SALES'' = str_lower ''sales''"
    by (simp add: str_lower_def lower_char_def is_upper_char_def)
  have m: "MetricCalculatorTool_result ''SALES.win_rate'' ''last_month'' None =
     Some (PDict [
       (''success'', PBool False),
       (''error'', PStr ''Unknown category: SALES''),
       (''available_categories'',
          PList [PStr ''sales'', PStr ''marketing'', PStr ''customer_service'',
                 PStr ''customer_health'', PStr ''activity_metrics''])])"
    unfolding MetricCalculatorTool_result_def s by (simp add: n kpi_categories_def kpi_keys)
  have k: "KPILibraryTool_result (Some ''SALES'') None =
     Some (PDict [
       (''success'', PBool True),
       (''filter'', PDict [(''category'', PStr ''SALES''), (''search_term'', PNone)]),
       (''kpis'', PList []),
       (''summary'', PDict [
         (''total_kpis_found'', PInt 0),
         (''categories_searched'', PList [PStr ''SALES'']),
         (''available_categories'',
            PList [PStr ''sales'', PStr ''marketing'', PStr ''customer_service'',
                   PStr ''customer_health'', PStr ''activity_metrics''])])])"
    unfolding KPILibraryTool_result_def
    by (simp add: truthy_def library_category_def n opt_val_def kpi_categories_def kpi_keys)
  from l m k show ?thesis by (intro conjI)
qed

lemma explorer_found:
  assumes "map_of CREATIO_SCHEMA_KNOWLEDGE k = Some info"
    and "str_lower (str_strip name) = str_lower k"
  shows "\<exists>d t cols rels.
           info = PDict [(''description'', PStr d), (''table_name'', PStr t),
                         (''key_columns'', PList cols), (''relationships'', PList rels)] \<and>
           SchemaExplorerTool_result name incl =
             Some (PDict ([(''success'', PBool True), (''entity'', PStr k), (''table_name'', PStr t),
                           (''description'', PStr d), (''columns'', PList cols),
                           (''column_count'', PInt (int (length cols)))]
                          @ (if incl then [(''relationships'', PList rels),
                                           (''relationship_count'', PInt (int (length rels)))]
                             else [])))"
proof -
  from assms(1) have k: "k \<in> set (map fst CREATIO_SCHEMA_KNOWLEDGE)"
    by (metis map_of_eq_None_iff option.distinct(1) set_map)
  have m: "match_entity (str_strip name) = Some k"
    by (rule match_entity_key [OF k assms(2)])
  have ne: "k \<noteq> []" by (rule schema_keys_nonempty [OF k])
  from schema_wf [OF assms(1)] obtain d t cols rels where
    info: "info = PDict [(''description'', PStr d), (''table_name'', PStr t),
                   (''key_columns'', PList cols), (''relationships'', PList rels)]"
    by (rule wf_entity_fields)
  have "SchemaExplorerTool_result name incl =
             Some (PDict ([(''success'', PBool True), (''entity'', PStr k), (''table_name'', PStr t),
                           (''description'', PStr d), (''columns'', PList cols),
                           (''column_count'', PInt (int (length cols)))]
                          @ (if incl then [(''relationships'', PList rels),
                                           (''relationship_count'', PInt (int (length rels)))]
                             else [])))"
    unfolding SchemaExplorerTool_result_def Let_def m
    by (simp add: truthy_def ne assms(1) info getitem_def dict_get_def py_len_def)
  with info show ?thesis by blast
qed

lemma library_kpi_entry:
  assumes "wf_kpi kpi"
  shows "library_kpi cat None (m, kpi) acc = Some (acc @ [library_entry cat (m, kpi)])"
proof -
  from assms obtain n d fo u fr e es where
    kpi: "kpi = PDict [(''name'', PStr n), (''description'', PStr d), (''formula'', PStr fo),
                  (''unit'', PStr u), (''frequency'', PStr fr), (''entities'', PList (PStr e # es))]"
    unfolding wf_kpi_def by blast
  show ?thesis
    unfolding library_kpi_def library_entry_def kpi
    by (simp add: truthy_def getitem_def kpi_field_def)
qed

lemma library_fold:
  assumes "\<And>m kpi. (m, kpi) \<in> set kvs \<Longrightarrow> wf_kpi kpi"
  shows "fold_opt (library_kpi cat None) kvs acc = Some (acc @ map (library_entry cat) kvs)"
  using assms
proof (induction kvs arbitrary: acc)
  case Nil
  then show ?case by simp
next
  case (Cons kv kvs)
  obtain m kpi where kv: "kv = (m, kpi)" by (cases kv)
  have wf: "wf_kpi kpi" using Cons.prems [of m kpi] kv by simp
  have rest: "\<And>m kpi. (m, kpi) \<in> set kvs \<Longrightarrow> wf_kpi kpi" using Cons.prems by auto
  show ?case
    unfolding kv using library_kpi_entry [OF wf, of cat m acc] Cons.IH [OF rest]
    by simp
qed

lemma kpi_entries_wf:
  assumes "map_of CRM_KPI_LIBRARY category = Some (PDict metrics)" and "(m, kpi) \<in> set metrics"
  shows "wf_kpi kpi"
proof -
  have c: "PDict metrics = sales_kpis \<or> PDict metrics = marketing_kpis \<or> PDict metrics = customer_service_kpis
         \<or> PDict metrics = customer_health_kpis \<or> PDict metrics = activity_metrics_kpis"
    by (rule kpi_library_cases [OF assms(1)])
  have "\<And>m kpi. PDict metrics = sales_kpis \<Longrightarrow> (m, kpi) \<in> set metrics \<Longrightarrow> wf_kpi kpi"
    by (auto simp: sales_kpis_def wf_kpi_def is_str_def)
  moreover have "\<And>m kpi. PDict metrics = marketing_kpis \<Longrightarrow> (m, kpi) \<in> set metrics \<Longrightarrow> wf_kpi kpi"
    by (auto simp: marketing_kpis_def wf_kpi_def is_str_def)
  moreover have "\<And>m kpi. PDict metrics = customer_service_kpis \<Longrightarrow> (m, kpi) \<in> set metrics \<Longrightarrow> wf_kpi kpi"
    by (auto simp: customer_service_kpis_def wf_kpi_def is_str_def)
  moreover have "\<And>m kpi. PDict metrics = customer_health_kpis \<Longrightarrow> (m, kpi) \<in> set metrics \<Longrightarrow> wf_kpi kpi"
    by (auto simp: customer_health_kpis_def wf_kpi_def is_str_def)
  moreover have "\<And>m kpi. PDict metrics = activity_metrics_kpis \<Longrightarrow> (m, kpi) \<in> set metrics \<Longrightarrow> wf_kpi kpi"
    by (auto simp: activity_metrics_kpis_def wf_kpi_def is_str_def)
  ultimately show ?thesis using c assms(2) by blast
qed

lemma library_found:
  assumes "map_of CRM_KPI_LIBRARY category = Some (PDict metrics)"
  shows "KPILibraryTool_result (Some category) None =
           Some (PDict [
             (''success'', PBool True),
             (''filter'', PDict [(''category'', PStr category), (''search_term'', PNone)]),
             (''kpis'', PList (map (library_entry category) metrics)),
             (''summary'', PDict [
               (''total_kpis_found'', PInt (int (length metrics))),
               (''categories_searched'', PList [PStr category]),
               (''available_categories'', PList (map PStr (map fst CRM_KPI_LIBRARY)))])])"
proof -
  from assms have "category \<in> set (map fst CRM_KPI_LIBRARY)"
    by (metis map_of_eq_None_iff option.distinct(1) set_map)
  then have ne: "category \<noteq> []" unfolding kpi_keys by auto
  have f: "fold_opt (library_kpi category None) metrics [] = Some ([] @ map (library_entry category) metrics)"
    by (rule library_fold) (rule kpi_entries_wf [OF assms])
  show ?thesis
    unfolding KPILibraryTool_result_def
    by (simp add: truthy_def ne library_category_def assms as_dict_def f opt_val_def kpi_categories_def)
qed

lemma get_date_filter_total: "\<exists>f. get_date_filter tp = Some f"
  by (simp add: get_date_filter_def date_filters_def)

text \<open>
  Claim C1, amended. \<open>SchemaExplorerTool._run\<close> finds an entity up to letter case and
  surrounding white space and returns the stored table name, description, columns and
  (when asked) relationships unchanged. \<open>MetricCalculatorTool._run\<close> finds a metric by its
  exact id \<open>category.metric\<close> and returns the stored name, description, unit, formula and
  entities unchanged, the stored frequency inside a note. \<open>KPILibraryTool._run\<close> finds a
  category by its exact name and lists, for each stored metric in order, its id, category
  and the stored name, description, unit and frequency; it leaves formula and entities out.
\<close>

theorem lookups_return_stored_records:
  "(map_of CREATIO_SCHEMA_KNOWLEDGE k = Some info \<longrightarrow> str_lower (str_strip name) = str_lower k \<longrightarrow>
      (\<exists>d t cols rels.
         info = PDict [(''description'', PStr d), (''table_name'', PStr t),
                       (''key_columns'', PList cols), (''relationships'', PList rels)] \<and>
         SchemaExplorerTool_result name incl =
           Some (PDict ([(''success'', PBool True), (''entity'', PStr k), (''table_name'', PStr t),
                         (''description'', PStr d), (''columns'', PList cols),
                         (''column_count'', PInt (int (length cols)))]
                        @ (if incl then [(''relationships'', PList rels),
                                         (''relationship_count'', PInt (int (length rels)))]
                           else []))))) \<and>
   (str_split metric_id (CHR ''.'') = [category, metric_name] \<longrightarrow>
    map_of CRM_KPI_LIBRARY category = Some kpis \<longrightarrow> getitem kpis metric_name = Some kpi \<longrightarrow>
      (\<exists>sql date_filter frequency.
         generate_calculation_query kpi time_period group_by = Some sql \<and>
         get_date_filter time_period = Some date_filter \<and>
         kpi_field kpi ''frequency'' = PStr frequency \<and>
         MetricCalculatorTool_result metric_id time_period group_by =
           Some (PDict [
             (''success'', PBool True),
             (''metric'', PDict [
               (''id'', PStr metric_id),
               (''name'', kpi_field kpi ''name''),
               (''description'', kpi_field kpi ''description''),
               (''unit'', kpi_field kpi ''unit'')]),
             (''calculation'', PDict [
               (''formula'', kpi_field kpi ''formula''),
               (''sql_query'', PStr sql),
               (''time_period'', PStr time_period),
               (''date_filter'', PStr date_filter),
               (''group_by'', opt_val group_by)]),
             (''entities_required'', kpi_field kpi ''entities''),
             (''notes'', PList [
               PStr (''Recommended calculation frequency: '' @ frequency),
               PStr ''Ensure appropriate indexes exist for date columns'',
               PStr ''Consider caching results for dashboard performance''])]))) \<and>
   (map_of CRM_KPI_LIBRARY browsed = Some (PDict metrics) \<longrightarrow>
      KPILibraryTool_result (Some browsed) None =
        Some (PDict [
          (''success'', PBool True),
          (''filter'', PDict [(''category'', PStr browsed), (''search_term'', PNone)]),
          (''kpis'', PList (map (library_entry browsed) metrics)),
          (''summary'', PDict [
            (''total_kpis_found'', PInt (int (length metrics))),
            (''categories_searched'', PList [PStr browsed]),
            (''available_categories'', PList (map PStr (map fst CRM_KPI_LIBRARY)))])]))"
proof (intro conjI impI)
  assume "map_of CREATIO_SCHEMA_KNOWLEDGE k = Some info" "str_lower (str_strip name) = str_lower k"
  then show "\<exists>d t cols rels.
         info = PDict [(''description'', PStr d), (''table_name'', PStr t),
                       (''key_columns'', PList cols), (''relationships'', PList rels)] \<and>
         SchemaExplorerTool_result name incl =
           Some (PDict ([(''success'', PBool True), (''entity'', PStr k), (''table_name'', PStr t),
                         (''description'', PStr d), (''columns'', PList cols),
                         (''column_count'', PInt (int (length cols)))]
                        @ (if incl then [(''relationships'', PList rels),
                                         (''relationship_count'', PInt (int (length rels)))]
                           else [])))"
    by (rule explorer_found)
next
  assume a: "str_split metric_id (CHR ''.'') = [category, metric_name]"
    "map_of CRM_KPI_LIBRARY category = Some kpis" "getitem kpis metric_name = Some kpi"
  obtain f where f: "get_date_filter time_period = Some f"
    using get_date_filter_total by blast
  from calculator_known_metric [OF a f, of group_by]
  obtain sql name description unit formula entities frequency where
    r: "generate_calculation_query kpi time_period group_by = Some sql"
      "getitem kpi ''name'' = Some name" "getitem kpi ''description'' = Some description"
      "getitem kpi ''unit'' = Some unit" "getitem kpi ''formula'' = Some formula"
      "getitem kpi ''entities'' = Some entities" "getstr kpi ''frequency'' = Some frequency"
      "MetricCalculatorTool_result metric_id time_period group_by =
             Some (PDict [
               (''success'', PBool True),
               (''metric'', PDict [
                 (''id'', PStr metric_id),
                 (''name'', name),
                 (''description'', description),
                 (''unit'', unit)]),
               (''calculation'', PDict [
                 (''formula'', formula),
                 (''sql_query'', PStr sql),
                 (''time_period'', PStr time_period),
                 (''date_filter'', PStr f),
                 (''group_by'', opt_val group_by)]),
               (''entities_required'', entities),
               (''notes'', PList [
                 PStr (''Recommended calculation frequency: '' @ frequency),
                 PStr ''Ensure appropriate indexes exist for date columns'',
                 PStr ''Consider caching results for dashboard performance''])])"
    by blast
  have fr: "kpi_field kpi ''frequency'' = PStr frequency"
    using r(7) by (cases "getitem kpi ''frequency''")
      (auto simp: kpi_field_def getstr_def as_str_def split: pyval.splits)
  have fields: "kpi_field kpi ''name'' = name" "kpi_field kpi ''description'' = description"
    "kpi_field kpi ''unit'' = unit" "kpi_field kpi ''formula'' = formula"
    "kpi_field kpi ''entities'' = entities"
    using r(2-6) by (simp_all add: kpi_field_def)
  show "\<exists>sql date_filter frequency.
         generate_calculation_query kpi time_period group_by = Some sql \<and>
         get_date_filter time_period = Some date_filter \<and>
         kpi_field kpi ''frequency'' = PStr frequency \<and>
         MetricCalculatorTool_result metric_id time_period group_by =
           Some (PDict [
             (''success'', PBool True),
             (''metric'', PDict [
               (''id'', PStr metric_id),
               (''name'', kpi_field kpi ''name''),
               (''description'', kpi_field kpi ''description''),
               (''unit'', kpi_field kpi ''unit'')]),
             (''calculation'', PDict [
               (''formula'', kpi_field kpi ''formula''),
               (''sql_query'', PStr sql),
               (''time_period'', PStr time_period),
               (''date_filter'', PStr date_filter),
               (''group_by'', opt_val group_by)]),
             (''entities_required'', kpi_field kpi ''entities''),
             (''notes'', PList [
               PStr (''Recommended calculation frequency: '' @ frequency),
               PStr ''Ensure appropriate indexes exist for date columns'',
               PStr ''Consider caching results for dashboard performance''])])"
    unfolding fields using r(1) f fr r(8) by blast
next
  assume "map_of CRM_KPI_LIBRARY browsed = Some (PDict metrics)"
  then show "KPILibraryTool_result (Some browsed) None =
        Some (PDict [
          (''success'', PBool True),
          (''filter'', PDict [(''category'', PStr browsed), (''search_term'', PNone)]),
          (''kpis'', PList (map (library_entry browsed) metrics)),
          (''summary'', PDict [
            (''total_kpis_found'', PInt (int (length metrics))),
            (''categories_searched'', PList [PStr browsed]),
            (''available_categories'', PList (map PStr (map fst CRM_KPI_LIBRARY)))])])"
    by (rule library_found)
qed

theorem lookups_return_stored_records_witness:
  "(\<exists>d t cols rels.
      Contact_info = PDict [(''description'', PStr d), (''table_name'', PStr t),
                            (''key_columns'', PList cols), (''relationships'', PList rels)] \<and>
      SchemaExplorerTool_result '' CONTACT '' False =
        Some (PDict [(''success'', PBool True), (''entity'', PStr ''Contact''), (''table_name'', PStr t),
                     (''description'', PStr d), (''columns'', PList cols),
                     (''column_count'', PInt (int (length cols)))])) \<and>
   (\<exists>sql.
      MetricCalculatorTool_result ''sales.win_rate'' ''last_month'' None =
        Some (PDict [
          (''success'', PBool True),
          (''metric'', PDict [
            (''id'', PStr ''sales.win_rate''),
            (''name'', PStr ''Win Rate''),
            (''description'', PStr ''Percentage of opportunities closed as won''),
            (''unit'', PStr ''percentage'')]),
          (''calculation'', PDict [
            (''formula'', PStr ''(COUNT(Won Opportunities) / COUNT(All Closed Opportunities)) * 100''),
            (''sql_query'', PStr sql),
            (''time_period'', PStr ''last_month''),
            (''date_filter'', PStr ''CreatedOn >= DATEADD(MONTH, -1, GETDATE())''),
            (''group_by'', PNone)]),
          (''entities_required'', PList [PStr ''Opportunity'', PStr ''OpportunityStage'']),
          (''notes'', PList [
            PStr ''Recommended calculation frequency: monthly'',
            PStr ''Ensure appropriate indexes exist for date columns'',
            PStr ''Consider caching results for dashboard performance''])])) \<and>
   (\<exists>metrics.
      sales_kpis = PDict metrics \<and>
      KPILibraryTool_result (Some ''sales'') None =
        Some (PDict [
          (''success'', PBool True),
          (''filter'', PDict [(''category'', PStr ''sales''), (''search_term'', PNone)]),
          (''kpis'', PList (map (library_entry ''sales'') metrics)),
          (''summary'', PDict [
            (''total_kpis_found'', PInt (int (length metrics))),
            (''categories_searched'', PList [PStr ''sales'']),
            (''available_categories'', PList (map PStr (map fst CRM_KPI_LIBRARY)))])]))"
proof -
  have c: "map_of CREATIO_SCHEMA_KNOWLEDGE ''Contact'' = Some Contact_info"
    by (simp add: CREATIO_SCHEMA_KNOWLEDGE_def)
  have l: "str_lower (str_strip '' CONTACT '') = str_lower ''Contact''"
    by (simp add: str_strip_def is_space_def str_lower_def lower_char_def is_upper_char_def)
  have s: "str_split ''sales.win_rate'' (CHR ''.'') = [''sales'', ''win_rate'']"
    by (simp add: str_split_def)
  have k: "map_of CRM_KPI_LIBRARY ''sales'' = Some sales_kpis"
    by (simp add: CRM_KPI_LIBRARY_def)
  have g: "getitem sales_kpis ''win_rate'' = Some (PDict [(''name'', PStr ''Win Rate''),
               (''description'', PStr ''Percentage of opportunities closed as won''),
               (''formula'', PStr ''(COUNT(Won Opportunities) / COUNT(All Closed Opportunities)) * 100''),
               (''unit'', PStr ''percentage''), (''frequency'', PStr ''monthly''),
               (''entities'', PList [PStr ''Opportunity'', PStr ''OpportunityStage''])])"
    by (simp add: sales_kpis_def getitem_def)
  obtain metrics where m: "sales_kpis = PDict metrics"
    by (simp add: sales_kpis_def)
  note t = lookups_return_stored_records [where k = "''Contact''" and info = Contact_info
      and name = "'' CONTACT ''" and incl = False and metric_id = "''sales.win_rate''"
      and category = "''sales''" and metric_name = "''win_rate''" and kpis = sales_kpis
      and kpi = "(PDict [(''name'', PStr ''Win Rate''),
               (''description'', PStr ''Percentage of opportunities closed as won''),
               (''formula'', PStr ''(COUNT(Won Opportunities) / COUNT(All Closed Opportunities)) * 100''),
               (''unit'', PStr ''percentage''), (''frequency'', PStr ''monthly''),
               (''entities'', PList [PStr ''Opportunity'', PStr ''OpportunityStage''])])" and time_period = "''last_month''" and group_by = None
      and browsed = "''sales''" and metrics = metrics]
  from t c l have a: "\<exists>d t cols rels.
      Contact_info = PDict [(''description'', PStr d), (''table_name'', PStr t),
                            (''key_columns'', PList cols), (''relationships'', PList rels)] \<and>
      SchemaExplorerTool_result '' CONTACT '' False =
        Some (PDict [(''success'', PBool True), (''entity'', PStr ''Contact''), (''table_name'', PStr t),
                     (''description'', PStr d), (''columns'', PList cols),
                     (''column_count'', PInt (int (length cols)))])"
    by simp
  from t s k g have "\<exists>sql date_filter frequency.
         generate_calculation_query (PDict [(''name'', PStr ''Win Rate''),
               (''description'', PStr ''Percentage of opportunities closed as won''),
               (''formula'', PStr ''(COUNT(Won Opportunities) / COUNT(All Closed Opportunities)) * 100''),
               (''unit'', PStr ''percentage''), (''frequency'', PStr ''monthly''),
               (''entities'', PList [PStr ''Opportunity'', PStr ''OpportunityStage''])]) ''last_month'' None = Some sql \<and>
         get_date_filter ''last_month'' = Some date_filter \<and>
         kpi_field (PDict [(''name'', PStr ''Win Rate''),
               (''description'', PStr ''Percentage of opportunities closed as won''),
               (''formula'', PStr ''(COUNT(Won Opportunities) / COUNT(All Closed Opportunities)) * 100''),
               (''unit'', PStr ''percentage''), (''frequency'', PStr ''monthly''),
               (''entities'', PList [PStr ''Opportunity'', PStr ''OpportunityStage''])]) ''frequency'' = PStr frequency \<and>
         MetricCalculatorTool_result ''sales.win_rate'' ''last_month'' None =
           Some (PDict [
             (''success'', PBool True),
             (''metric'', PDict [
               (''id'', PStr ''sales.win_rate''),
               (''name'', kpi_field (PDict [(''name'', PStr ''Win Rate''),
               (''description'', PStr ''Percentage of opportunities closed as won''),
               (''formula'', PStr ''(COUNT(Won Opportunities) / COUNT(All Closed Opportunities)) * 100''),
               (''unit'', PStr ''percentage''), (''frequency'', PStr ''monthly''),
               (''entities'', PList [PStr ''Opportunity'', PStr ''OpportunityStage''])]) ''name''),
               (''description'', kpi_field (PDict [(''name'', PStr ''Win Rate''),
               (''description'', PStr ''Percentage of opportunities closed as won''),
               (''formula'', PStr ''(COUNT(Won Opportunities) / COUNT(All Closed Opportunities)) * 100''),
               (''unit'', PStr ''percentage''), (''frequency'', PStr ''monthly''),
               (''entities'', PList [PStr ''Opportunity'', PStr ''OpportunityStage''])]) ''description''),
               (''unit'', kpi_field (PDict [(''name'', PStr ''Win Rate''),
               (''description'', PStr ''Percentage of opportunities closed as won''),
               (''formula'', PStr ''(COUNT(Won Opportunities) / COUNT(All Closed Opportunities)) * 100''),
               (''unit'', PStr ''percentage''), (''frequency'', PStr ''monthly''),
               (''entities'', PList [PStr ''Opportunity'', PStr ''OpportunityStage''])]) ''unit'')]),
             (''calculation'', PDict [
               (''formula'', kpi_field (PDict [(''name'', PStr ''Win Rate''),
               (''description'', PStr ''Percentage of opportunities closed as won''),
               (''formula'', PStr ''(COUNT(Won Opportunities) / COUNT(All Closed Opportunities)) * 100''),
               (''unit'', PStr ''percentage''), (''frequency'', PStr ''monthly''),
               (''entities'', PList [PStr ''Opportunity'', PStr ''OpportunityStage''])]) ''formula''),
               (''sql_query'', PStr sql),
               (''time_period'', PStr ''last_month''),
               (''date_filter'', PStr date_filter),
               (''group_by'', opt_val None)]),
             (''entities_required'', kpi_field (PDict [(''name'', PStr ''Win Rate''),
               (''description'', PStr ''Percentage of opportunities closed as won''),
               (''formula'', PStr ''(COUNT(Won Opportunities) / COUNT(All Closed Opportunities)) * 100''),
               (''unit'', PStr ''percentage''), (''frequency'', PStr ''monthly''),
               (''entities'', PList [PStr ''Opportunity'', PStr ''OpportunityStage''])]) ''entities''),
             (''notes'', PList [
               PStr (''Recommended calculation frequency: '' @ frequency),
               PStr ''Ensure appropriate indexes exist for date columns'',
               PStr ''Consider caching results for dashboard performance''])])"
    by blast
  then have b: "\<exists>sql.
      MetricCalculatorTool_result ''sales.win_rate'' ''last_month'' None =
        Some (PDict [
          (''success'', PBool True),
          (''metric'', PDict [
            (''id'', PStr ''sales.win_rate''),
            (''name'', PStr ''Win Rate''),
            (''description'', PStr ''Percentage of opportunities closed as won''),
            (''unit'', PStr ''percentage'')]),
          (''calculation'', PDict [
            (''formula'', PStr ''(COUNT(Won Opportunities) / COUNT(All Closed Opportunities)) * 100''),
            (''sql_query'', PStr sql),
            (''time_period'', PStr ''last_month''),
            (''date_filter'', PStr ''CreatedOn >= DATEADD(MONTH, -1, GETDATE())''),
            (''group_by'', PNone)]),
          (''entities_required'', PList [PStr ''Opportunity'', PStr ''OpportunityStage'']),
          (''notes'', PList [
            PStr ''Recommended calculation frequency: monthly'',
            PStr ''Ensure appropriate indexes exist for date columns'',
            PStr ''Consider caching results for dashboard performance''])])"
    by (auto simp: kpi_field_def getitem_def opt_val_def get_date_filter_last_month)
  from t k m have d: "KPILibraryTool_result (Some ''sales'') None =
        Some (PDict [
          (''success'', PBool True),
          (''filter'', PDict [(''category'', PStr ''sales''), (''search_term'', PNone)]),
          (''kpis'', PList (map (library_entry ''sales'') metrics)),
          (''summary'', PDict [
            (''total_kpis_found'', PInt (int (length metrics))),
            (''categories_searched'', PList [PStr ''sales'']),
            (''available_categories'', PList (map PStr (map fst CRM_KPI_LIBRARY)))])])"
    by simp
  from a b d m show ?thesis by blast
qed

section \<open>Unknown keys\<close>




end
